theory Spec2Isabelle
  imports Complex_Main
begin

section \<open>Python values, exceptions and the outside world\<close>

text \<open>
  The service of \<^verbatim>\<open>simple_pathway_service.py\<close> works on dictionaries decoded from JSON
  (source configurations, response bodies) and builds dictionaries that are sent as JSON.
  They are modelled as values of type \<open>json\<close>; a dictionary keeps its items in insertion
  order and is read with \<open>map_of\<close>. Strings are lists of code points below 256 and floats
  are exact rationals.
\<close>

datatype json =
    JNull
  | JBool bool
  | JInt int
  | JFloat rat
  | JStr string
  | JList "json list"
  | JObj "(string \<times> json) list"

text \<open>
  An exception is its class and the text \<open>str(e)\<close>. Only subclasses of \<open>Exception\<close> are
  modelled: an interrupt or a task cancellation is the external stop signal and is outside
  the model.
\<close>

datatype exn_kind = KeyError | AttributeError | TypeError | IndexError | ValueError | ClientError

datatype exn = Exn exn_kind string

definition str_exn :: "exn \<Rightarrow> string" where
  "str_exn e = (case e of Exn k m \<Rightarrow> m)"

definition and_then :: "exn + 'a \<Rightarrow> ('a \<Rightarrow> exn + 'b) \<Rightarrow> exn + 'b" where
  "and_then r f = (case r of Inl e \<Rightarrow> Inl e | Inr v \<Rightarrow> f v)"

definition quote :: "string \<Rightarrow> string" where
  "quote s = CHR 0x27 # s @ [CHR 0x27]"

fun type_name :: "json \<Rightarrow> string" where
  "type_name JNull = ''NoneType''"
| "type_name (JBool b) = ''bool''"
| "type_name (JInt i) = ''int''"
| "type_name (JFloat r) = ''float''"
| "type_name (JStr s) = ''str''"
| "type_name (JList xs) = ''list''"
| "type_name (JObj kvs) = ''dict''"

text \<open>Truth value testing (\<open>if x\<close>, \<open>not x\<close>, \<open>x or y\<close>).\<close>

fun truthy :: "json \<Rightarrow> bool" where
  "truthy JNull = False"
| "truthy (JBool b) = b"
| "truthy (JInt i) = (i \<noteq> 0)"
| "truthy (JFloat r) = (r \<noteq> 0)"
| "truthy (JStr s) = (s \<noteq> [])"
| "truthy (JList xs) = (xs \<noteq> [])"
| "truthy (JObj kvs) = (kvs \<noteq> [])"

text \<open>\<open>d.get(k, default)\<close>; only a dictionary has the method.\<close>

fun py_get :: "json \<Rightarrow> string \<Rightarrow> json \<Rightarrow> exn + json" where
  "py_get (JObj kvs) k d = Inr (case map_of kvs k of None \<Rightarrow> d | Some v \<Rightarrow> v)"
| "py_get v k d =
     Inl (Exn AttributeError (quote (type_name v) @ '' object has no attribute '' @ quote ''get''))"

text \<open>\<open>d[k]\<close> with a string key.\<close>

fun py_getitem :: "json \<Rightarrow> string \<Rightarrow> exn + json" where
  "py_getitem (JObj kvs) k =
     (case map_of kvs k of None \<Rightarrow> Inl (Exn KeyError (quote k)) | Some v \<Rightarrow> Inr v)"
| "py_getitem (JList xs) k = Inl (Exn TypeError ''list indices must be integers or slices, not str'')"
| "py_getitem (JStr s) k = Inl (Exn TypeError ''string indices must be integers'')"
| "py_getitem v k = Inl (Exn TypeError (quote (type_name v) @ '' object is not subscriptable''))"

text \<open>\<open>d[0]\<close>. The keys of a decoded dictionary are strings, so \<open>0\<close> is never one of them.\<close>

fun py_getitem0 :: "json \<Rightarrow> exn + json" where
  "py_getitem0 (JList []) = Inl (Exn IndexError ''list index out of range'')"
| "py_getitem0 (JList (x # xs)) = Inr x"
| "py_getitem0 (JStr []) = Inl (Exn IndexError ''string index out of range'')"
| "py_getitem0 (JStr (c # cs)) = Inr (JStr [c])"
| "py_getitem0 (JObj kvs) = Inl (Exn KeyError ''0'')"
| "py_getitem0 v = Inl (Exn TypeError (quote (type_name v) @ '' object is not subscriptable''))"

text \<open>\<open>for x in v\<close>: a list gives its elements, a string its characters, a dictionary its keys.\<close>

fun py_iter :: "json \<Rightarrow> exn + json list" where
  "py_iter (JList xs) = Inr xs"
| "py_iter (JStr s) = Inr (map (\<lambda>c. JStr [c]) s)"
| "py_iter (JObj kvs) = Inr (map (\<lambda>kv. JStr (fst kv)) kvs)"
| "py_iter v = Inl (Exn TypeError (quote (type_name v) @ '' object is not iterable''))"

text \<open>Lists and dictionaries cannot be dictionary keys.\<close>

fun hashable :: "json \<Rightarrow> bool" where
  "hashable (JList xs) = False"
| "hashable (JObj kvs) = False"
| "hashable v = True"

definition unhashable :: "json \<Rightarrow> exn" where
  "unhashable v = Exn TypeError (''unhashable type: '' @ quote (type_name v))"

text \<open>Looking a value up in a table whose keys are string literals: \<open>table.get(key, default)\<close>.\<close>

definition table_get :: "(string \<times> 'a) list \<Rightarrow> json \<Rightarrow> 'a \<Rightarrow> exn + 'a" where
  "table_get table key d =
     (if \<not> hashable key then Inl (unhashable key)
      else case key of
             JStr s \<Rightarrow> (case map_of table s of None \<Rightarrow> Inr d | Some v \<Rightarrow> Inr v)
           | _ \<Rightarrow> Inr d)"

text \<open>Decimal text of an integer, as \<open>str\<close> gives it.\<close>

function str_nat :: "nat \<Rightarrow> string" where
  "str_nat n =
     (if n < 10 then [char_of (48 + n)] else str_nat (n div 10) @ [char_of (48 + n mod 10)])"
  by pat_completeness auto
termination
  by (relation "measure id") auto

definition str_int :: "int \<Rightarrow> string" where
  "str_int i = (if i < 0 then CHR ''-'' # str_nat (nat (- i)) else str_nat (nat i))"

subsection \<open>The outside world\<close>

text \<open>
  Network, clock, random generator and the library parsers are not code of the repository.
  They are the fields of an environment \<open>E\<close>; a theorem that holds for every \<open>E\<close> holds for
  every behaviour of the outside. The world is the history of what the service has done so
  far; the answer of the network, the clock or the random generator may depend on the
  position in that history, so two calls need not give the same answer. Besides the requests,
  the sleeps, the clock readings and the random draws, the history records each call of
  \<open>process_source\<close>, of the two fetch strategies and of \<open>send_data_to_backend\<close> with its
  arguments, so that a theorem can say which calls were made. Console output is not part of
  the history, and neither is the clock reading of the line that prints the time of a sweep;
  where the arguments of a \<open>print\<close> can raise, the raise is modelled.
\<close>

datatype request =
    Get json "(string \<times> json) list" "(string \<times> string) list" "nat option"
  | Post string json "nat option"

record response =
  status :: int
  json_body :: "exn + json"
  text_body :: "exn + string"

datatype event =
    Http request
  | Sleep nat
  | ReadClock
  | Draw
  | ProcessSource json
  | FetchWeather json
  | FetchRss json
  | SendData json json

type_synonym world = "event list"

datatype element = Element (tag: string) (elem_text: "string option") (children: "element list")

record datetime =
  wall_us :: int
  tzinfo :: "int option"

record env =
  backend_url :: string
  net :: "nat \<Rightarrow> request \<Rightarrow> exn + response"
  rand :: "nat \<Rightarrow> nat"
  rand_unit :: "nat \<Rightarrow> rat"
  now_us :: "nat \<Rightarrow> int"
  isoformat :: "int \<Rightarrow> string"
  fromisoformat :: "string \<Rightarrow> exn + datetime"
  xml_fromstring :: "string \<Rightarrow> exn + element"
  repr_other :: "json \<Rightarrow> string"

text \<open>
  \<open>session.get(url, params, headers, timeout)\<close> and \<open>session.post(url, json, timeout)\<close>: the
  request is recorded, the network answers or raises. The URL of a \<open>Get\<close> is the value the
  source passes, which is a string unless the registry sent something else.
\<close>

definition http :: "env \<Rightarrow> request \<Rightarrow> world \<Rightarrow> (exn + response) \<times> world" where
  "http E rq w = (net E (length w) rq, w @ [Http rq])"

definition sleep :: "nat \<Rightarrow> world \<Rightarrow> world" where
  "sleep n w = w @ [Sleep n]"

text \<open>\<open>datetime.now()\<close> as microseconds of local wall-clock time, and its ISO text.\<close>

definition now :: "env \<Rightarrow> world \<Rightarrow> int \<times> world" where
  "now E w = (now_us E (length w), w @ [ReadClock])"

definition now_isoformat :: "env \<Rightarrow> world \<Rightarrow> string \<times> world" where
  "now_isoformat E w = (isoformat E (now_us E (length w)), w @ [ReadClock])"

text \<open>
  \<open>random.randint(a, b)\<close> is some integer of \<open>[a, b]\<close>, \<open>random.choice(xs)\<close> some element,
  \<open>random.uniform(a, b)\<close> is \<open>a + (b - a) * random()\<close> with \<open>random()\<close> in \<open>[0, 1)\<close>. The
  environment supplies the raw draw; every outcome of the library is the image of one.
\<close>

definition randint :: "env \<Rightarrow> int \<Rightarrow> int \<Rightarrow> world \<Rightarrow> int \<times> world" where
  "randint E a b w = (a + int (rand E (length w)) mod (b - a + 1), w @ [Draw])"

definition choice :: "env \<Rightarrow> 'a list \<Rightarrow> world \<Rightarrow> 'a \<times> world" where
  "choice E xs w = (xs ! (rand E (length w) mod length xs), w @ [Draw])"

definition uniform :: "env \<Rightarrow> rat \<Rightarrow> rat \<Rightarrow> world \<Rightarrow> rat \<times> world" where
  "uniform E a b w = (a + (b - a) * frac (rand_unit E (length w)), w @ [Draw])"

text \<open>\<open>round(x, 1)\<close>: to the nearest tenth, a tie to the even one.\<close>

definition round1 :: "rat \<Rightarrow> rat" where
  "round1 x =
     (let y = 10 * x; f = \<lfloor>y\<rfloor>; d = y - of_int f
      in of_int (if d < 1 / 2 then f else if 1 / 2 < d then f + 1
                 else if even f then f else f + 1) / 10)"

text \<open>\<open>str(v)\<close> inside an f-string; the text of floats, lists and dictionaries is the library's.\<close>

definition py_str :: "env \<Rightarrow> json \<Rightarrow> string" where
  "py_str E v =
     (case v of
        JStr s \<Rightarrow> s
      | JNull \<Rightarrow> ''None''
      | JBool b \<Rightarrow> (if b then ''True'' else ''False'')
      | JInt i \<Rightarrow> str_int i
      | _ \<Rightarrow> repr_other E v)"

section \<open>Weather strategy\<close>

definition base_temps :: "(string \<times> int) list" where
  "base_temps =
     [(''New York'', 15), (''London'', 12), (''Tokyo'', 18), (''Sydney'', 22),
      (''Berlin'', 8), (''Paris'', 14), (''Los Angeles'', 24), (''Chicago'', 10),
      (''Toronto'', 9), (''Mumbai'', 28)]"

definition conditions :: "string list" where
  "conditions =
     [''Clear sky'', ''Few clouds'', ''Scattered clouds'', ''Broken clouds'',
      ''Light rain'', ''Sunny'', ''Partly cloudy'', ''Overcast'']"

definition latlon :: "json \<Rightarrow> json \<Rightarrow> json" where
  "latlon la lo = JObj [(''lat'', la), (''lon'', lo)]"

definition coords :: "(string \<times> json) list" where
  "coords =
     [(''New York'', latlon (JFloat (407128 / 10000)) (JFloat (- 740060 / 10000))),
      (''London'', latlon (JFloat (515074 / 10000)) (JFloat (- 1278 / 10000))),
      (''Tokyo'', latlon (JFloat (356762 / 10000)) (JFloat (1396503 / 10000))),
      (''Sydney'', latlon (JFloat (- 338688 / 10000)) (JFloat (1512093 / 10000))),
      (''Berlin'', latlon (JFloat (525200 / 10000)) (JFloat (134050 / 10000))),
      (''Paris'', latlon (JFloat (488566 / 10000)) (JFloat (23522 / 10000))),
      (''Los Angeles'', latlon (JFloat (340522 / 10000)) (JFloat (- 1182437 / 10000))),
      (''Chicago'', latlon (JFloat (418781 / 10000)) (JFloat (- 876298 / 10000))),
      (''Toronto'', latlon (JFloat (436532 / 10000)) (JFloat (- 793832 / 10000))),
      (''Mumbai'', latlon (JFloat (190760 / 10000)) (JFloat (728777 / 10000)))]"

definition get_coordinates :: "json \<Rightarrow> exn + json" where
  "get_coordinates city = table_get coords city (latlon (JInt 0) (JInt 0))"

text \<open>
  \<open>generate_mock_weather_data(city, source_id)\<close>. The draws are made in the order of the
  source: the offset, then the entries of the dictionary from top to bottom.
\<close>

definition generate_mock_weather_data ::
  "env \<Rightarrow> json \<Rightarrow> json \<Rightarrow> world \<Rightarrow> (exn + json) \<times> world" where
  "generate_mock_weather_data E city source_id w =
     (case table_get base_temps city 15 of
        Inl e \<Rightarrow> (Inl e, w)
      | Inr base_temp \<Rightarrow>
          let (offset, w1) = randint E (- 5) 10 w;
              temperature = base_temp + offset;
              (description, w2) = choice E conditions w1;
              (humidity, w3) = randint E 40 80 w2;
              (wind, w4) = uniform E 0 15 w3;
              (pressure, w5) = randint E 990 1020 w4;
              (timestamp, w6) = now_isoformat E w5
          in (case get_coordinates city of
                Inl e \<Rightarrow> (Inl e, w6)
              | Inr coordinates \<Rightarrow>
                  (Inr (JObj
                     [(''city'', city),
                      (''temperature'', JInt temperature),
                      (''description'', JStr description),
                      (''humidity'', JInt humidity),
                      (''windSpeed'', JFloat (round1 wind)),
                      (''pressure'', JInt pressure),
                      (''timestamp'', JStr timestamp),
                      (''source'', JStr (''pathway-service-'' @ py_str E source_id)),
                      (''sourceId'', source_id),
                      (''coordinates'', coordinates)]), w6)))"

text \<open>
  The entries of the item built from a 200 answer of the weather provider, evaluated from
  top to bottom; any missing key raises.
\<close>

definition live_weather_item :: "env \<Rightarrow> json \<Rightarrow> json \<Rightarrow> world \<Rightarrow> (exn + json) \<times> world" where
  "live_weather_item E data source_config w =
     (case
        and_then (py_getitem data ''name'') (\<lambda>name.
        and_then (and_then (py_getitem data ''main'') (\<lambda>m. py_getitem m ''temp'')) (\<lambda>temp.
        and_then (and_then (and_then (py_getitem data ''weather'') py_getitem0)
                    (\<lambda>x. py_getitem x ''description'')) (\<lambda>description.
        and_then (and_then (py_getitem data ''main'') (\<lambda>m. py_getitem m ''humidity'')) (\<lambda>humidity.
        and_then (and_then (py_getitem data ''wind'') (\<lambda>x. py_get x ''speed'' (JInt 0))) (\<lambda>wind.
        and_then (and_then (py_getitem data ''main'') (\<lambda>m. py_getitem m ''pressure'')) (\<lambda>pressure.
        Inr [(''city'', name), (''temperature'', temp), (''description'', description),
             (''humidity'', humidity), (''windSpeed'', wind), (''pressure'', pressure)]))))))
      of
        Inl e \<Rightarrow> (Inl e, w)
      | Inr measured \<Rightarrow>
          let (timestamp, w1) = now_isoformat E w
          in (case
                and_then (py_getitem source_config ''sourceId'') (\<lambda>sid.
                and_then (and_then (py_getitem data ''coord'') (\<lambda>x. py_getitem x ''lat'')) (\<lambda>la.
                and_then (and_then (py_getitem data ''coord'') (\<lambda>x. py_getitem x ''lon'')) (\<lambda>lo.
                Inr (JObj (measured @
                       [(''timestamp'', JStr timestamp),
                        (''source'', JStr (''openweathermap-api-'' @ py_str E sid)),
                        (''coordinates'', latlon la lo)])))))
              of
                Inl e \<Rightarrow> (Inl e, w1)
              | Inr item \<Rightarrow> (Inr item, w1)))"

text \<open>\<open>self.generate_mock_weather_data(city, source_config['sourceId'])\<close>.\<close>

definition mock_for_city :: "env \<Rightarrow> json \<Rightarrow> json \<Rightarrow> world \<Rightarrow> (exn + json) \<times> world" where
  "mock_for_city E source_config city w =
     (case py_getitem source_config ''sourceId'' of
        Inl e \<Rightarrow> (Inl e, w)
      | Inr sid \<Rightarrow> generate_mock_weather_data E city sid w)"

definition weather_request :: "json \<Rightarrow> json \<Rightarrow> request" where
  "weather_request city api_key =
     Get (JStr ''http://api.openweathermap.org/data/2.5/weather'')
       [(''q'', city), (''appid'', api_key), (''units'', JStr ''metric'')] [] (Some 10)"

text \<open>The body of the inner \<open>try\<close> for one city.\<close>

definition weather_attempt ::
  "env \<Rightarrow> json \<Rightarrow> json \<Rightarrow> json \<Rightarrow> world \<Rightarrow> (exn + json) \<times> world" where
  "weather_attempt E source_config api_key city w =
     (if truthy api_key \<and> api_key \<noteq> JStr ''demo-key'' then
        (case http E (weather_request city api_key) w of
           (Inl e, w1) \<Rightarrow> (Inl e, w1)
         | (Inr resp, w1) \<Rightarrow>
             if status resp = 200 then
               (case json_body resp of
                  Inl e \<Rightarrow> (Inl e, w1)
                | Inr data \<Rightarrow> live_weather_item E data source_config w1)
             else mock_for_city E source_config city w1)
      else mock_for_city E source_config city w)"

text \<open>One round of the loop over the cities: the inner \<open>try\<close> and its handler.\<close>

definition weather_city ::
  "env \<Rightarrow> json \<Rightarrow> json \<Rightarrow> json \<Rightarrow> world \<Rightarrow> (exn + json) \<times> world" where
  "weather_city E source_config api_key city w =
     (case weather_attempt E source_config api_key city w of
        (Inr item, w1) \<Rightarrow> (Inr item, w1)
      | (Inl city_error, w1) \<Rightarrow> mock_for_city E source_config city w1)"

fun weather_loop ::
  "env \<Rightarrow> json \<Rightarrow> json \<Rightarrow> json list \<Rightarrow> json list \<Rightarrow> world \<Rightarrow> (exn + json list) \<times> world" where
  "weather_loop E source_config api_key [] weather_results w = (Inr weather_results, w)"
| "weather_loop E source_config api_key (city # rest) weather_results w =
     (case weather_city E source_config api_key city w of
        (Inl e, w1) \<Rightarrow> (Inl e, w1)
      | (Inr weather_data, w1) \<Rightarrow>
          weather_loop E source_config api_key rest (weather_results @ [weather_data]) w1)"

text \<open>The body of the outer \<open>try\<close> of \<open>fetch_weather_data\<close>, then the function with its handler.\<close>

definition fetch_weather_body :: "env \<Rightarrow> json \<Rightarrow> world \<Rightarrow> (exn + json list) \<times> world" where
  "fetch_weather_body E source_config w =
     (case and_then (py_get source_config ''config'' (JObj []))
             (\<lambda>c. py_get c ''cities'' (JList [JStr ''New York''])) of
        Inl e \<Rightarrow> (Inl e, w)
      | Inr cities \<Rightarrow>
          (case and_then (py_get source_config ''config'' (JObj []))
                  (\<lambda>c. py_get c ''apiKey'' JNull) of
             Inl e \<Rightarrow> (Inl e, w)
           | Inr api_key \<Rightarrow>
               (case py_iter cities of
                  Inl e \<Rightarrow> (Inl e, w)
                | Inr cs \<Rightarrow> weather_loop E source_config api_key cs [] w)))"

definition fetch_weather_data :: "env \<Rightarrow> json \<Rightarrow> world \<Rightarrow> (exn + json list) \<times> world" where
  "fetch_weather_data E source_config w =
     (case fetch_weather_body E source_config (w @ [FetchWeather source_config]) of
        (Inr weather_results, w1) \<Rightarrow> (Inr weather_results, w1)
      | (Inl e, w1) \<Rightarrow> (Inr [], w1))"

section \<open>Feed parser\<close>

text \<open>
  \<open>str.strip()\<close> removes the white space of both ends. Of the code points below 256 these
  are 9 to 13, 28 to 32, 133 and 160.
\<close>

definition is_space :: "char \<Rightarrow> bool" where
  "is_space c =
     (let n = of_char c :: nat
      in (9 \<le> n \<and> n \<le> 13) \<or> (28 \<le> n \<and> n \<le> 32) \<or> n = 133 \<or> n = 160)"

definition strip :: "string \<Rightarrow> string" where
  "strip s = rev (dropWhile is_space (rev (dropWhile is_space s)))"

text \<open>
  \<open>element.find(tag)\<close> is the first child with the tag; \<open>root.findall('.//tag')\<close> are the
  elements below the root with the tag, in document order.
\<close>

definition find_child :: "element \<Rightarrow> string \<Rightarrow> element option" where
  "find_child el t = find (\<lambda>c. tag c = t) (children el)"

fun descendants :: "element \<Rightarrow> element list" where
  "descendants (Element t x cs) = concat (map (\<lambda>c. c # descendants c) cs)"

definition findall :: "element \<Rightarrow> string \<Rightarrow> element list" where
  "findall doc t = filter (\<lambda>el. tag el = t) (descendants doc)"

fun get_xml_text :: "element \<Rightarrow> string list \<Rightarrow> string option" where
  "get_xml_text el [] = None"
| "get_xml_text el (t # tag_names) =
     (case find_child el t of
        None \<Rightarrow> get_xml_text el tag_names
      | Some found \<Rightarrow>
          (case elem_text found of
             None \<Rightarrow> get_xml_text el tag_names
           | Some tx \<Rightarrow> if tx \<noteq> [] then Some (strip tx) else get_xml_text el tag_names))"

text \<open>\<open>x or ''\<close> for \<open>x\<close> a string or \<open>None\<close>; such an \<open>x\<close> is true when this is not empty.\<close>

definition or_empty :: "string option \<Rightarrow> string" where
  "or_empty x = (case x of None \<Rightarrow> [] | Some s \<Rightarrow> s)"

definition atom :: "string \<Rightarrow> string" where
  "atom t = ''{http://www.w3.org/2005/Atom}'' @ t"

definition newline :: string where
  "newline = [CHR 0x0A]"

text \<open>
  The body of the \<open>try\<close> for one item: \<open>None\<close> when the item has no title, the article
  otherwise. The clock is read only when the item has no date, and before the keys of the
  source configuration are read.
\<close>

definition parse_rss_item ::
  "env \<Rightarrow> json \<Rightarrow> element \<Rightarrow> world \<Rightarrow> (exn + json option) \<times> world" where
  "parse_rss_item E source_config item w =
     (let title = get_xml_text item [''title''];
          description = get_xml_text item [''description'', ''summary'', atom ''summary''];
          link = get_xml_text item [''link'', ''guid'', atom ''link''];
          pub_date = get_xml_text item [''pubDate'', ''published'', atom ''published'']
      in if or_empty title \<noteq> [] then
           let (timestamp, w1) =
                 (if or_empty pub_date \<noteq> [] then (or_empty pub_date, w) else now_isoformat E w)
           in (case
                 and_then (py_getitem source_config ''sourceId'') (\<lambda>sid.
                 and_then (py_getitem source_config ''sourceName'') (\<lambda>name.
                 and_then (py_getitem source_config ''sourceUrl'') (\<lambda>url.
                 Inr (JObj
                   [(''title'', JStr (strip (or_empty title))),
                    (''description'',
                       JStr (take 500 (strip (or_empty description)) @
                             (if 500 < length (or_empty description) then ''...'' else []))),
                    (''content'', JStr (or_empty title @ newline @ newline @ or_empty description)),
                    (''link'', JStr (or_empty link)),
                    (''timestamp'', JStr timestamp),
                    (''source'', JStr (''rss-'' @ py_str E sid)),
                    (''sourceId'', sid),
                    (''sourceName'', name),
                    (''sourceUrl'', url),
                    (''type'', JStr ''rss_article'')]))))
               of
                 Inl e \<Rightarrow> (Inl e, w1)
               | Inr rss_item \<Rightarrow> (Inr (Some rss_item), w1))
         else (Inr None, w))"

text \<open>The loop over the items; an item whose \<open>try\<close> raises is skipped.\<close>

fun parse_rss_loop ::
  "env \<Rightarrow> json \<Rightarrow> element list \<Rightarrow> json list \<Rightarrow> world \<Rightarrow> json list \<times> world" where
  "parse_rss_loop E source_config [] items w = (items, w)"
| "parse_rss_loop E source_config (item # rest) items w =
     (case parse_rss_item E source_config item w of
        (Inl item_error, w1) \<Rightarrow> parse_rss_loop E source_config rest items w1
      | (Inr None, w1) \<Rightarrow> parse_rss_loop E source_config rest items w1
      | (Inr (Some rss_item), w1) \<Rightarrow> parse_rss_loop E source_config rest (items @ [rss_item]) w1)"

definition rss_nodes :: "element \<Rightarrow> element list" where
  "rss_nodes doc =
     (let rss_items = findall doc ''item''
      in if rss_items = [] then findall doc (atom ''entry'') else rss_items)"

definition parse_rss_content ::
  "env \<Rightarrow> string \<Rightarrow> json \<Rightarrow> world \<Rightarrow> (exn + json list) \<times> world" where
  "parse_rss_content E content source_config w =
     (case xml_fromstring E content of
        Inl e \<Rightarrow> (Inr [], w)
      | Inr doc \<Rightarrow>
          (case parse_rss_loop E source_config (take 10 (rss_nodes doc)) [] w of
             (items, w1) \<Rightarrow> (Inr items, w1)))"

section \<open>RSS and news strategy\<close>

text \<open>
  One of the two dictionaries of \<open>generate_mock_rss_data\<close>; they differ in the headline, the
  description and the end of the link.
\<close>

definition mock_article ::
  "env \<Rightarrow> json \<Rightarrow> string \<Rightarrow> string \<Rightarrow> string \<Rightarrow> world \<Rightarrow> (exn + json) \<times> world" where
  "mock_article E source_config headline description suffix w =
     (case and_then (py_getitem source_config ''sourceName'')
             (\<lambda>name. and_then (py_get source_config ''sourceUrl'' (JStr []))
                (\<lambda>link. Inr (name, link))) of
        Inl e \<Rightarrow> (Inl e, w)
      | Inr (name, link) \<Rightarrow>
          let (timestamp, w1) = now_isoformat E w
          in (case
                and_then (py_getitem source_config ''sourceId'') (\<lambda>sid.
                and_then (py_getitem source_config ''sourceUrl'') (\<lambda>url.
                Inr (JObj
                  [(''title'', JStr (headline @ py_str E name)),
                   (''description'', JStr description),
                   (''content'', JStr (headline @ py_str E name @ newline @ newline @ description)),
                   (''link'', JStr (py_str E link @ suffix)),
                   (''timestamp'', JStr timestamp),
                   (''source'', JStr (''rss-'' @ py_str E sid)),
                   (''sourceId'', sid),
                   (''sourceName'', name),
                   (''sourceUrl'', url),
                   (''type'', JStr ''rss_article'')])))
              of
                Inl e \<Rightarrow> (Inl e, w1)
              | Inr article \<Rightarrow> (Inr article, w1)))"

definition generate_mock_rss_data :: "env \<Rightarrow> json \<Rightarrow> world \<Rightarrow> (exn + json list) \<times> world" where
  "generate_mock_rss_data E source_config w =
     (case mock_article E source_config ''Breaking: Latest updates from ''
             ''Important news and updates from our RSS feed source.'' ''/article-1'' w of
        (Inl e, w1) \<Rightarrow> (Inl e, w1)
      | (Inr a1, w1) \<Rightarrow>
          (case mock_article E source_config ''Technology Update from ''
                  ''Latest technology trends and innovations in the industry.'' ''/article-2'' w1 of
             (Inl e, w2) \<Rightarrow> (Inl e, w2)
           | (Inr a2, w2) \<Rightarrow> (Inr [a1, a2], w2)))"

definition rss_headers :: "(string \<times> string) list" where
  "rss_headers =
     [(''User-Agent'', ''Mozilla/5.0 (Windows NT 10.0; Win64; x64) AppleWebKit/537.36 (KHTML, like Gecko) Chrome/91.0.4472.124 Safari/537.36''),
      (''Accept'', ''application/rss+xml, application/xml, text/xml, */*'')]"

text \<open>
  The body of the \<open>try\<close> of \<open>fetch_rss_data\<close>, then the function: the handler calls
  \<open>generate_mock_rss_data\<close> outside any \<open>try\<close>, so what that call raises leaves the function.
\<close>

definition fetch_rss_body :: "env \<Rightarrow> json \<Rightarrow> world \<Rightarrow> (exn + json list) \<times> world" where
  "fetch_rss_body E source_config w =
     (case py_get source_config ''sourceUrl'' JNull of
        Inl e \<Rightarrow> (Inl e, w)
      | Inr feed_url \<Rightarrow>
          if \<not> truthy feed_url then (Inr [], w)
          else
            (case http E (Get feed_url [] rss_headers (Some 15)) w of
               (Inl e, w1) \<Rightarrow> (Inl e, w1)
             | (Inr resp, w1) \<Rightarrow>
                 if status resp = 200 then
                   (case text_body resp of
                      Inl e \<Rightarrow> (Inl e, w1)
                    | Inr content \<Rightarrow>
                        (case parse_rss_content E content source_config w1 of
                           (Inl e, w2) \<Rightarrow> (Inl e, w2)
                         | (Inr rss_items, w2) \<Rightarrow>
                             if rss_items \<noteq> [] then (Inr rss_items, w2)
                             else generate_mock_rss_data E source_config w2))
                 else generate_mock_rss_data E source_config w1))"

definition fetch_rss_data :: "env \<Rightarrow> json \<Rightarrow> world \<Rightarrow> (exn + json list) \<times> world" where
  "fetch_rss_data E source_config w =
     (case fetch_rss_body E source_config (w @ [FetchRss source_config]) of
        (Inr rss_items, w1) \<Rightarrow> (Inr rss_items, w1)
      | (Inl e, w1) \<Rightarrow> generate_mock_rss_data E source_config w1)"

section \<open>Delivery client\<close>

text \<open>The payload of \<open>send_data_to_backend\<close>; the clock is read between the two groups of keys.\<close>

definition payload :: "env \<Rightarrow> json \<Rightarrow> json \<Rightarrow> world \<Rightarrow> (exn + json) \<times> world" where
  "payload E data source_config w =
     (case and_then (py_getitem source_config ''sourceType'')
             (\<lambda>ty. and_then (py_getitem source_config ''sourceId'') (\<lambda>sid. Inr (ty, sid))) of
        Inl e \<Rightarrow> (Inl e, w)
      | Inr (ty, sid) \<Rightarrow>
          let (timestamp, w1) = now_isoformat E w
          in (case
                and_then (py_getitem source_config ''sourceName'') (\<lambda>name.
                and_then (py_getitem source_config ''sourceType'') (\<lambda>ty2.
                and_then (py_getitem source_config ''sourceUrl'') (\<lambda>url.
                and_then (py_getitem source_config ''maxEntries'') (\<lambda>max_entries.
                Inr (JObj
                  [(''data'', data),
                   (''type'', ty),
                   (''sourceId'', sid),
                   (''timestamp'', JStr timestamp),
                   (''source_metadata'',
                      JObj [(''sourceName'', name), (''sourceType'', ty2),
                            (''sourceUrl'', url), (''maxEntries'', max_entries)])])))))
              of
                Inl e \<Rightarrow> (Inl e, w1)
              | Inr p \<Rightarrow> (Inr p, w1)))"

definition send_body :: "env \<Rightarrow> json \<Rightarrow> json \<Rightarrow> world \<Rightarrow> (exn + bool \<times> json) \<times> world" where
  "send_body E data source_config w =
     (case payload E data source_config w of
        (Inl e, w1) \<Rightarrow> (Inl e, w1)
      | (Inr p, w1) \<Rightarrow>
          (case http E (Post (backend_url E @ ''/api/pathway/ingest'') p (Some 30)) w1 of
             (Inl e, w2) \<Rightarrow> (Inl e, w2)
           | (Inr resp, w2) \<Rightarrow>
               if status resp = 200 then
                 (case and_then (json_body resp)
                         (\<lambda>result. py_get result ''message'' (JStr ''Success'')) of
                    Inl e \<Rightarrow> (Inl e, w2)
                  | Inr message \<Rightarrow> (Inr (True, message), w2))
               else
                 (case text_body resp of
                    Inl e \<Rightarrow> (Inl e, w2)
                  | Inr error_text \<Rightarrow>
                      (Inr (False, JStr (''HTTP '' @ str_int (status resp) @ '': '' @ error_text)),
                       w2))))"

definition send_data_to_backend ::
  "env \<Rightarrow> json \<Rightarrow> json \<Rightarrow> world \<Rightarrow> (exn + bool \<times> json) \<times> world" where
  "send_data_to_backend E data source_config w =
     (case send_body E data source_config (w @ [SendData data source_config]) of
        (Inr r, w1) \<Rightarrow> (Inr r, w1)
      | (Inl e, w1) \<Rightarrow> (Inr (False, JStr (''Connection error: '' @ str_exn e)), w1))"

section \<open>Registry client\<close>

definition sources_body :: "env \<Rightarrow> world \<Rightarrow> (exn + json) \<times> world" where
  "sources_body E w =
     (case http E (Get (JStr (backend_url E @ ''/api/pathway/sources/active'')) [] [] None) w of
        (Inl e, w1) \<Rightarrow> (Inl e, w1)
      | (Inr resp, w1) \<Rightarrow>
          if status resp = 200 then
            (case and_then (json_body resp) (\<lambda>data. py_get data ''sources'' (JList [])) of
               Inl e \<Rightarrow> (Inl e, w1)
             | Inr sources \<Rightarrow> (Inr sources, w1))
          else (Inr (JList []), w1))"

definition get_registered_sources :: "env \<Rightarrow> world \<Rightarrow> (exn + json) \<times> world" where
  "get_registered_sources E w =
     (case sources_body E w of
        (Inr sources, w1) \<Rightarrow> (Inr sources, w1)
      | (Inl e, w1) \<Rightarrow> (Inr (JList []), w1))"

section \<open>Scheduler\<close>

text \<open>The loop of \<open>process_source\<close> over the items, with the number of successes.\<close>

fun send_all :: "env \<Rightarrow> json \<Rightarrow> json list \<Rightarrow> nat \<Rightarrow> world \<Rightarrow> (exn + nat) \<times> world" where
  "send_all E source_config [] success_count w = (Inr success_count, w)"
| "send_all E source_config (data_item # rest) success_count w =
     (case send_data_to_backend E data_item source_config w of
        (Inl e, w1) \<Rightarrow> (Inl e, w1)
      | (Inr (success, message), w1) \<Rightarrow>
          send_all E source_config rest (if success then success_count + 1 else success_count) w1)"

text \<open>
  \<open>process_source\<close>: the three keys are read before the \<open>try\<close>; the dispatch on the type,
  the fetch and the deliveries are inside it, and its handler only prints.
\<close>

definition process_try :: "env \<Rightarrow> json \<Rightarrow> json \<Rightarrow> world \<Rightarrow> (exn + unit) \<times> world" where
  "process_try E source_config source_type w =
     (case
        (if source_type = JStr ''weather'' then Some (fetch_weather_data E source_config w)
         else if source_type = JStr ''rss'' \<or> source_type = JStr ''news''
              then Some (fetch_rss_data E source_config w)
         else None)
      of
        None \<Rightarrow> (Inr (), w)
      | Some (Inl e, w1) \<Rightarrow> (Inl e, w1)
      | Some (Inr data_items, w1) \<Rightarrow>
          if data_items = [] then (Inr (), w1)
          else (case send_all E source_config data_items 0 w1 of
                  (Inl e, w2) \<Rightarrow> (Inl e, w2)
                | (Inr success_count, w2) \<Rightarrow> (Inr (), w2)))"

definition process_source :: "env \<Rightarrow> json \<Rightarrow> world \<Rightarrow> (exn + unit) \<times> world" where
  "process_source E source_config w =
     (let w0 = w @ [ProcessSource source_config]
      in case
           and_then (py_getitem source_config ''sourceId'') (\<lambda>source_id.
           and_then (py_getitem source_config ''sourceType'') (\<lambda>source_type.
           and_then (py_getitem source_config ''sourceName'') (\<lambda>source_name.
           Inr source_type)))
         of
           Inl e \<Rightarrow> (Inl e, w0)
         | Inr source_type \<Rightarrow>
             (case process_try E source_config source_type w0 of
                (Inl e, w1) \<Rightarrow> (Inr (), w1)
              | (Inr u, w1) \<Rightarrow> (Inr (), w1)))"

text \<open>\<open>source.get('status') == 'active' and source.get('isActive')\<close>.\<close>

definition eligible :: "json \<Rightarrow> bool" where
  "eligible source =
     (py_get source ''status'' JNull = Inr (JStr ''active'') \<and>
      (case py_get source ''isActive'' JNull of Inl e \<Rightarrow> False | Inr v \<Rightarrow> truthy v))"

text \<open>\<open>last_ingested.replace('Z', '+00:00')\<close>.\<close>

definition replace_Z :: "string \<Rightarrow> string" where
  "replace_Z s = concat (map (\<lambda>c. if c = CHR ''Z'' then ''+00:00'' else [c]) s)"

text \<open>The number a value stands for in a comparison with a float; \<open>None\<close> when there is none.\<close>

fun number :: "json \<Rightarrow> rat option" where
  "number (JInt i) = Some (of_int i)"
| "number (JFloat r) = Some r"
| "number (JBool b) = Some (if b then 1 else 0)"
| "number v = None"

text \<open>
  \<open>(current_time - last_time.replace(tzinfo=None)).total_seconds()\<close>: both are wall-clock
  readings, the offset of the parsed time is dropped.
\<close>

definition total_seconds :: "int \<Rightarrow> datetime \<Rightarrow> rat" where
  "total_seconds current_time last_time =
     of_int (current_time - wall_us (last_time\<lparr>tzinfo := None\<rparr>)) / 1000000"

text \<open>The body of the \<open>try\<close> for one eligible source in \<open>run_source_monitoring\<close>.\<close>

definition due_try :: "env \<Rightarrow> json \<Rightarrow> world \<Rightarrow> (exn + unit) \<times> world" where
  "due_try E source w =
     (case and_then (py_get source ''lastIngestedAt'' JNull)
             (\<lambda>last. and_then (py_get source ''ingestionInterval'' (JInt 300))
                (\<lambda>interval. Inr (last, interval))) of
        Inl e \<Rightarrow> (Inl e, w)
      | Inr (last_ingested, interval) \<Rightarrow>
          if \<not> truthy last_ingested then process_source E source w
          else
            (case last_ingested of
               JStr l \<Rightarrow>
                 (case fromisoformat E (replace_Z l) of
                    Inl e \<Rightarrow> (Inl e, w)
                  | Inr last_time \<Rightarrow>
                      let (current_time, w1) = now E w;
                          time_diff = total_seconds current_time last_time
                      in (case number interval of
                            None \<Rightarrow>
                              (Inl (Exn TypeError
                                 (quote ''>='' @ '' not supported between instances of '' @
                                  quote ''float'' @ '' and '' @ quote (type_name interval))), w1)
                          | Some i \<Rightarrow>
                              if i \<le> time_diff then process_source E source w1
                              else (case py_getitem source ''sourceName'' of
                                      Inl e \<Rightarrow> (Inl e, w1)
                                    | Inr source_name \<Rightarrow> (Inr (), w1))))
             | v \<Rightarrow>
                 (Inl (Exn AttributeError
                    (quote (type_name v) @ '' object has no attribute '' @ quote ''replace'')), w)))"

text \<open>
  One round of the loop over the sources. Reading the keys of something that is not a
  dictionary raises outside the inner \<open>try\<close>; what the inner \<open>try\<close> raises is only printed.
\<close>

definition monitor_source :: "env \<Rightarrow> json \<Rightarrow> world \<Rightarrow> (exn + unit) \<times> world" where
  "monitor_source E source w =
     (case py_get source ''sourceName'' (JStr ''unknown'') of
        Inl e \<Rightarrow> (Inl e, w)
      | Inr source_name \<Rightarrow>
          if eligible source then
            (case due_try E source w of
               (Inl source_error, w1) \<Rightarrow> (Inr (), w1)
             | (Inr u, w1) \<Rightarrow> (Inr (), w1))
          else (Inr (), w))"

fun monitor_loop :: "env \<Rightarrow> json list \<Rightarrow> world \<Rightarrow> (exn + unit) \<times> world" where
  "monitor_loop E [] w = (Inr (), w)"
| "monitor_loop E (source # rest) w =
     (case monitor_source E source w of
        (Inl e, w1) \<Rightarrow> (Inl e, w1)
      | (Inr u, w1) \<Rightarrow> monitor_loop E rest w1)"

text \<open>\<open>len(sources)\<close> in the line that prints the number of sources.\<close>

fun py_len :: "json \<Rightarrow> exn + nat" where
  "py_len (JList xs) = Inr (length xs)"
| "py_len (JStr s) = Inr (length s)"
| "py_len (JObj kvs) = Inr (length kvs)"
| "py_len v = Inl (Exn TypeError (''object of type '' @ quote (type_name v) @ '' has no len()''))"

text \<open>
  The body of the \<open>try\<close> inside \<open>while True\<close>, then one round of the loop with its handler, then
  the loop for a given number of rounds. The loop has no exit but the interrupt, which is
  outside the model, so \<open>run_source_monitoring E n\<close> is its first \<open>n\<close> rounds.
\<close>

definition sweep_body :: "env \<Rightarrow> world \<Rightarrow> (exn + unit) \<times> world" where
  "sweep_body E w =
     (case get_registered_sources E w of
        (Inl e, w1) \<Rightarrow> (Inl e, w1)
      | (Inr sources, w1) \<Rightarrow>
          if \<not> truthy sources then (Inr (), sleep 30 w1)
          else
            (case and_then (py_len sources) (\<lambda>n. py_iter sources) of
               Inl e \<Rightarrow> (Inl e, w1)
             | Inr srcs \<Rightarrow>
                 (case monitor_loop E srcs w1 of
                    (Inl e, w2) \<Rightarrow> (Inl e, w2)
                  | (Inr u, w2) \<Rightarrow> (Inr (), sleep 60 w2))))"

definition sweep :: "env \<Rightarrow> world \<Rightarrow> world" where
  "sweep E w =
     (case sweep_body E w of
        (Inl e, w1) \<Rightarrow> sleep 30 w1
      | (Inr u, w1) \<Rightarrow> w1)"

fun run_source_monitoring :: "env \<Rightarrow> nat \<Rightarrow> world \<Rightarrow> world" where
  "run_source_monitoring E 0 w = w"
| "run_source_monitoring E (Suc n) w = run_source_monitoring E n (sweep E w)"

section \<open>Reading the results\<close>

text \<open>The value an item holds under a key, and the source an event was issued for.\<close>

definition field :: "json \<Rightarrow> string \<Rightarrow> json option" where
  "field v k = (case v of JObj kvs \<Rightarrow> map_of kvs k | _ \<Rightarrow> None)"

fun about :: "event \<Rightarrow> json option" where
  "about (ProcessSource s) = Some s"
| "about (FetchWeather s) = Some s"
| "about (FetchRss s) = Some s"
| "about (SendData d s) = Some s"
| "about e = None"

text \<open>An environment and a weather source for the examples.\<close>

definition quiet_env :: env where
  "quiet_env =
     \<lparr>backend_url = ''http://localhost:5001'',
      net = (\<lambda>t rq. Inl (Exn ClientError ''Cannot connect to host'')),
      rand = (\<lambda>t. t),
      rand_unit = (\<lambda>t. 7 / 3),
      now_us = (\<lambda>t. 0),
      isoformat = (\<lambda>t. ''2024-01-01T00:00:00''),
      fromisoformat = (\<lambda>s. Inl (Exn ValueError ''Invalid isoformat string'')),
      xml_fromstring = (\<lambda>s. Inl (Exn ValueError ''syntax error'')),
      repr_other = (\<lambda>v. ''?'')\<rparr>"

definition refusing_env :: env where
  "refusing_env =
     quiet_env\<lparr>net := (\<lambda>t rq. Inr \<lparr>status = 500, json_body = Inl (Exn ValueError ''Expecting value''),
                                   text_body = Inr ''Internal Server Error''\<rparr>)\<rparr>"

definition garbled_env :: env where
  "garbled_env =
     quiet_env\<lparr>net := (\<lambda>t rq. Inr \<lparr>status = 200, json_body = Inl (Exn ValueError ''Expecting value''),
                                   text_body = Inr ''<html>OK</html>''\<rparr>)\<rparr>"

definition ok_env :: env where
  "ok_env =
     quiet_env\<lparr>net := (\<lambda>t rq. Inr \<lparr>status = 200, json_body = Inr (JObj [(''message'', JStr ''ok'')]),
                                   text_body = Inr ''accepted''\<rparr>)\<rparr>"

definition feed_source :: json where
  "feed_source =
     JObj [(''sourceId'', JStr ''feed-1''), (''sourceType'', JStr ''rss''),
           (''sourceName'', JStr ''Daily Feed''), (''sourceUrl'', JStr ''http://feed.example/rss''),
           (''maxEntries'', JInt 50), (''status'', JStr ''active''), (''isActive'', JBool True)]"

text \<open>The two requests to the backend, as the source builds them.\<close>

definition registry_request :: "env \<Rightarrow> request" where
  "registry_request E = Get (JStr (backend_url E @ ''/api/pathway/sources/active'')) [] [] None"

definition ingest_request :: "env \<Rightarrow> json \<Rightarrow> request" where
  "ingest_request E p = Post (backend_url E @ ''/api/pathway/ingest'') p (Some 30)"

text \<open>The message \<open>send_data_to_backend\<close> returns for an exception.\<close>

definition connection_error :: "exn \<Rightarrow> json" where
  "connection_error e = JStr (''Connection error: '' @ str_exn e)"

text \<open>
  Reading the parser's output: a node has a title when \<open>get_xml_text\<close> finds one, that is
  when its first \<open>title\<close> child has text that is not only white space; \<open>clipped\<close> is a
  description cut to 500 characters with the ellipsis.
\<close>

definition titled :: "element \<Rightarrow> bool" where
  "titled it =
     (case find_child it ''title'' of
        None \<Rightarrow> False
      | Some t \<Rightarrow> (case elem_text t of None \<Rightarrow> False | Some tx \<Rightarrow> strip tx \<noteq> []))"

definition description_tags :: "string list" where
  "description_tags = [''description'', ''summary'', atom ''summary'']"

definition clipped :: "string \<Rightarrow> string" where
  "clipped d = take 500 d @ (if 500 < length d then ''...'' else [])"

text \<open>Feeds and a source configuration without \<open>sourceName\<close> for the examples.\<close>

definition bare_source :: json where
  "bare_source = JObj [(''sourceId'', JStr ''feed-1'')]"

definition headline :: "string \<Rightarrow> element" where
  "headline t = Element ''item'' None [Element ''title'' (Some t) []]"

definition feed15 :: element where
  "feed15 =
     Element ''rss'' None
       [Element ''channel'' None
          (map headline
             [''n01'', ''n02'', ''n03'', ''n04'', ''n05'', ''n06'', ''n07'', ''n08'', ''n09'',
              ''n10'', ''n11'', ''n12'', ''n13'', ''n14'', ''n15''])]"

definition mixed_feed :: element where
  "mixed_feed =
     Element ''rss'' None
       [Element ''channel'' None
          [headline ''first'',
           Element ''item'' None [Element ''description'' (Some ''no title here'') []],
           Element ''item'' None [Element ''title'' (Some ''  '') []],
           headline '' second '']]"

definition feed_env :: env where
  "feed_env =
     quiet_env\<lparr>xml_fromstring :=
       (\<lambda>s. if s = ''fifteen'' then Inr feed15
            else if s = ''mixed'' then Inr mixed_feed
            else if s = ''empty'' then Inr (Element ''rss'' None [Element ''channel'' None []])
            else Inl (Exn ValueError ''syntax error''))\<rparr>"

text \<open>
  What a function adds to the history: \<open>extends P w w'\<close> says that \<open>w'\<close> is \<open>w\<close> followed by
  events that all satisfy \<open>P\<close>. An event is \<open>quiet\<close> when it is issued for no source, and
  \<open>own s\<close> when it is quiet or issued for the source \<open>s\<close>.
\<close>

definition extends :: "(event \<Rightarrow> bool) \<Rightarrow> world \<Rightarrow> world \<Rightarrow> bool" where
  "extends P w w' = (\<exists>evs. w' = w @ evs \<and> list_all P evs)"

definition quiet :: "event \<Rightarrow> bool" where
  "quiet e = (about e = None)"

definition own :: "json \<Rightarrow> event \<Rightarrow> bool" where
  "own s e = (about e = None \<or> about e = Some s)"

definition paused_source :: json where
  "paused_source =
     JObj [(''sourceId'', JStr ''feed-2''), (''sourceType'', JStr ''rss''),
           (''sourceName'', JStr ''Paused Feed''), (''sourceUrl'', JStr ''http://feed.example/rss''),
           (''maxEntries'', JInt 50), (''status'', JStr ''paused''), (''isActive'', JBool True)]"

definition inactive_source :: json where
  "inactive_source =
     JObj [(''sourceId'', JStr ''feed-3''), (''sourceType'', JStr ''rss''),
           (''sourceName'', JStr ''Inactive Feed''), (''sourceUrl'', JStr ''http://feed.example/rss''),
           (''maxEntries'', JInt 50), (''status'', JStr ''active''), (''isActive'', JBool False)]"

definition registry_env :: "json list \<Rightarrow> env" where
  "registry_env srcs =
     quiet_env\<lparr>net :=
       (\<lambda>t rq. if rq = registry_request quiet_env
                then Inr \<lparr>status = 200, json_body = Inr (JObj [(''sources'', JList srcs)]),
                         text_body = Inr ''sources''\<rparr>
                else Inl (Exn ClientError ''Cannot connect to host''))\<rparr>"



definition calm_source :: json where
  "calm_source =
     JObj [(''sourceId'', JStr ''weather-1''), (''sourceType'', JStr ''weather''),
           (''sourceName'', JStr ''Weather''), (''maxEntries'', JInt 50),
           (''status'', JStr ''active''), (''isActive'', JBool True),
           (''config'', JObj [(''cities'', JList [])])]"

definition urlless_source :: json where
  "urlless_source =
     JObj [(''sourceId'', JStr ''feed-5''), (''sourceType'', JStr ''rss''),
           (''sourceName'', JStr ''Feed Without Address''), (''sourceUrl'', JStr ''''),
           (''maxEntries'', JInt 50), (''status'', JStr ''active''), (''isActive'', JBool True)]"

text \<open>
  The request for a feed; whether the fetch of a feed failed: the request raised, the answer
  was not 200, its text could not be read, or the parser found no article; and the two
  synthetic articles, read through their titles, descriptions and links.
\<close>

definition rss_request :: "json \<Rightarrow> request" where
  "rss_request url = Get url [] rss_headers (Some 15)"

definition rss_failed :: "env \<Rightarrow> json \<Rightarrow> json \<Rightarrow> world \<Rightarrow> bool" where
  "rss_failed E sc url w =
     (case net E (Suc (length w)) (rss_request url) of
        Inl e \<Rightarrow> True
      | Inr resp \<Rightarrow>
          status resp \<noteq> 200 \<or>
          (case text_body resp of
             Inl e \<Rightarrow> True
           | Inr content \<Rightarrow>
               fst (parse_rss_content E content sc (w @ [FetchRss sc, Http (rss_request url)])) =
                 Inr []))"

definition is_fallback :: "env \<Rightarrow> json \<Rightarrow> json \<Rightarrow> json list \<Rightarrow> bool" where
  "is_fallback E name url items =
     (\<exists>a1 a2. items = [a1, a2] \<and>
        field a1 ''title'' = Some (JStr (''Breaking: Latest updates from '' @ py_str E name)) \<and>
        field a1 ''description'' =
          Some (JStr ''Important news and updates from our RSS feed source.'') \<and>
        field a1 ''link'' = Some (JStr (py_str E url @ ''/article-1'')) \<and>
        field a2 ''title'' = Some (JStr (''Technology Update from '' @ py_str E name)) \<and>
        field a2 ''description'' =
          Some (JStr ''Latest technology trends and innovations in the industry.'') \<and>
        field a2 ''link'' = Some (JStr (py_str E url @ ''/article-2'')))"

text \<open>The sources \<open>process_source\<close> hands to the RSS strategy.\<close>

definition feed_type :: "json \<Rightarrow> bool" where
  "feed_type sc =
     (py_getitem sc ''sourceType'' = Inr (JStr ''rss'') \<or>
      py_getitem sc ''sourceType'' = Inr (JStr ''news''))"

text \<open>
  Reading the weather strategy: the cities and the key it reads from the configuration (the
  first two lines of \<open>fetch_weather_data\<close>), the mode in which no request is made, and what
  an item can be: the synthetic item of a city, or the item built from an answer of the
  provider.
\<close>

definition requested_cities :: "json \<Rightarrow> exn + json" where
  "requested_cities sc =
     and_then (py_get sc ''config'' (JObj [])) (\<lambda>c. py_get c ''cities'' (JList [JStr ''New York'']))"

definition configured_key :: "json \<Rightarrow> exn + json" where
  "configured_key sc = and_then (py_get sc ''config'' (JObj [])) (\<lambda>c. py_get c ''apiKey'' JNull)"

definition mock_mode :: "json \<Rightarrow> bool" where
  "mock_mode k = (\<not> truthy k \<or> k = JStr ''demo-key'')"

definition synthetic :: "env \<Rightarrow> json \<Rightarrow> json \<Rightarrow> json \<Rightarrow> bool" where
  "synthetic E sid city item = (\<exists>w0 w1. generate_mock_weather_data E city sid w0 = (Inr item, w1))"

definition live :: "env \<Rightarrow> json \<Rightarrow> json \<Rightarrow> bool" where
  "live E sc item = (\<exists>data w0 w1. live_weather_item E data sc w0 = (Inr item, w1))"

text \<open>
  Reading one round of the loop over the cities when a key is configured. \<open>live_item_at\<close> is
  the item the provider's answer gives for a city requested at a point of the history: there
  is none when the request raises or times out, when the status is not 200, when the body
  does not decode, and when a key the item needs is missing from it. \<open>round_starts\<close> are the
  points of the history at which the rounds for the cities begin. \<open>round_item\<close> says what
  the item of a round is: the provider's item when there is one, the synthetic item of the
  requested city otherwise.
\<close>

definition live_item_at :: "env \<Rightarrow> json \<Rightarrow> json \<Rightarrow> json \<Rightarrow> world \<Rightarrow> json option" where
  "live_item_at E sc k city w =
     (case net E (length w) (weather_request city k) of
        Inl e \<Rightarrow> None
      | Inr resp \<Rightarrow>
          if status resp \<noteq> 200 then None
          else (case json_body resp of
                  Inl e \<Rightarrow> None
                | Inr data \<Rightarrow>
                    (case fst (live_weather_item E data sc (w @ [Http (weather_request city k)])) of
                       Inl e \<Rightarrow> None
                     | Inr item \<Rightarrow> Some item)))"

fun round_starts :: "env \<Rightarrow> json \<Rightarrow> json \<Rightarrow> json list \<Rightarrow> world \<Rightarrow> world list" where
  "round_starts E sc k [] w = []"
| "round_starts E sc k (city # rest) w =
     w # round_starts E sc k rest (snd (weather_city E sc k city w))"

definition round_item :: "env \<Rightarrow> json \<Rightarrow> json \<Rightarrow> json \<Rightarrow> json \<times> world \<Rightarrow> json \<Rightarrow> bool" where
  "round_item E sc sid k cw item =
     (case live_item_at E sc k (fst cw) (snd cw) of
        None \<Rightarrow> synthetic E sid (fst cw) item \<and> field item ''city'' = Some (fst cw)
      | Some it \<Rightarrow> item = it)"

text \<open>Weather sources for the examples.\<close>

definition null_cities_source :: json where
  "null_cities_source =
     JObj [(''sourceId'', JStr ''weather-2''), (''sourceType'', JStr ''weather''),
           (''sourceName'', JStr ''Weather''), (''maxEntries'', JInt 50),
           (''status'', JStr ''active''), (''isActive'', JBool True),
           (''config'', JObj [(''cities'', JNull)])]"

definition demo_source :: json where
  "demo_source =
     JObj [(''sourceId'', JStr ''weather-3''), (''sourceType'', JStr ''weather''),
           (''sourceName'', JStr ''Weather''), (''maxEntries'', JInt 50),
           (''status'', JStr ''active''), (''isActive'', JBool True),
           (''config'', JObj [(''cities'', JList [JStr ''London'', JStr ''Tokyo'']),
                             (''apiKey'', JStr ''demo-key'')])]"

definition keyed_source :: json where
  "keyed_source =
     JObj [(''sourceId'', JStr ''weather-4''), (''sourceType'', JStr ''weather''),
           (''sourceName'', JStr ''Weather''), (''maxEntries'', JInt 50),
           (''status'', JStr ''active''), (''isActive'', JBool True),
           (''config'', JObj [(''cities'', JList [JStr ''London'', JStr ''Tokyo'']),
                             (''apiKey'', JStr ''0123456789abcdef'')])]"

definition default_source :: json where
  "default_source =
     JObj [(''sourceId'', JStr ''weather-5''), (''sourceType'', JStr ''weather''),
           (''sourceName'', JStr ''Weather''), (''maxEntries'', JInt 50),
           (''status'', JStr ''active''), (''isActive'', JBool True)]"

text \<open>
  A provider that answers every request with a complete report, and one whose report lacks
  the measurements.
\<close>

definition provider_env :: env where
  "provider_env =
     quiet_env\<lparr>net := (\<lambda>t rq. Inr \<lparr>status = 200,
        json_body = Inr (JObj
          [(''name'', JStr ''Greater London''),
           (''main'', JObj [(''temp'', JFloat (23 / 2)), (''humidity'', JInt 70),
                           (''pressure'', JInt 1012)]),
           (''weather'', JList [JObj [(''description'', JStr ''light rain'')]]),
           (''wind'', JObj [(''speed'', JFloat (41 / 10))]),
           (''coord'', JObj [(''lat'', JFloat (515 / 10)), (''lon'', JFloat (- 1 / 10))])]),
        text_body = Inr ''weather''\<rparr>)\<rparr>"

definition truncated_env :: env where
  "truncated_env =
     quiet_env\<lparr>net := (\<lambda>t rq. Inr \<lparr>status = 200,
        json_body = Inr (JObj [(''name'', JStr ''Greater London'')]),
        text_body = Inr ''weather''\<rparr>)\<rparr>"

section \<open>Synthetic weather items\<close>

lemma randint_bounds: "a \<le> b \<Longrightarrow> a \<le> fst (randint E a b w) \<and> fst (randint E a b w) \<le> b"
proof -
  assume ab: "a \<le> b"
  let ?m = "b - a + 1"
  have m: "0 < ?m" using ab by simp
  have "0 \<le> int (rand E (length w)) mod ?m" using m by simp
  moreover have "int (rand E (length w)) mod ?m \<le> b - a"
    using pos_mod_bound [of ?m "int (rand E (length w))"] m by linarith
  ultimately show ?thesis by (simp add: randint_def)
qed

lemma choice_mem: "xs \<noteq> [] \<Longrightarrow> fst (choice E xs w) \<in> set xs"
  by (simp add: choice_def)

lemma uniform_bounds: "a \<le> b \<Longrightarrow> a \<le> fst (uniform E a b w) \<and> fst (uniform E a b w) \<le> b"
proof -
  assume ab: "a \<le> b"
  let ?u = "frac (rand_unit E (length w))"
  have u0: "0 \<le> ?u" and u1: "?u \<le> 1"
    using frac_lt_1 [of "rand_unit E (length w)"] by simp_all
  have "0 \<le> (b - a) * ?u" using ab u0 by simp
  moreover have "(b - a) * ?u \<le> (b - a) * 1" using ab u1 by (intro mult_left_mono) simp_all
  ultimately show ?thesis by (simp add: uniform_def)
qed

lemma round1_bounds: "0 \<le> x \<Longrightarrow> x \<le> 15 \<Longrightarrow> 0 \<le> round1 x \<and> round1 x \<le> 15"
proof -
  assume x0: "0 \<le> x" and x15: "x \<le> 15"
  define y where "y = 10 * x"
  define f where "f = \<lfloor>y\<rfloor>"
  have y0: "0 \<le> y" and y150: "y \<le> 150" using x0 x15 by (simp_all add: y_def)
  have f0: "0 \<le> f" using y0 by (simp add: f_def)
  have f150: "f \<le> 150" using y150 unfolding f_def by (simp add: floor_le_iff)
  have up: "f + 1 \<le> 150" if "0 < y - of_int f"
  proof -
    have "of_int f < y" using that by simp
    then have "(of_int f :: rat) < 150" using y150 by simp
    then have "f < 150" by simp
    then show ?thesis by simp
  qed
  have "round1 x = of_int f / 10 \<or> (round1 x = of_int (f + 1) / 10 \<and> 0 < y - of_int f)"
    unfolding round1_def Let_def y_def [symmetric] f_def [symmetric]
    by (auto simp: not_less)
  then show ?thesis
  proof
    assume "round1 x = of_int f / 10"
    then show ?thesis using f0 f150 by simp
  next
    assume a: "round1 x = of_int (f + 1) / 10 \<and> 0 < y - of_int f"
    then have "f + 1 \<le> 150" using up by blast
    then have "(of_int (f + 1) :: rat) \<le> 150" by (metis of_int_le_iff of_int_numeral)
    moreover have "(0::rat) \<le> of_int (f + 1)" using f0 by simp
    ultimately show ?thesis using a by simp
  qed
qed

lemma table_get_str:
  "table_get tb (JStr c) d = Inr (case map_of tb c of None \<Rightarrow> d | Some v \<Rightarrow> v)"
  by (simp add: table_get_def split: option.split)

text \<open>
  C9. For every city name and every outcome of the random choices the synthetic weather item
  has the temperature of the base table for the city (15 for a city that is not in it) plus
  an offset between -5 and 10, a description of the fixed vocabulary, a humidity between 40
  and 80, a wind speed between 0 and 15, a pressure between 990 and 1020, and the
  coordinates of the built-in table, \<open>{lat: 0, lon: 0}\<close> for a city that is not in it. The wind
  speed is a float in the source and an exact rational here; its bounds do not depend on the
  rounding.
\<close>

theorem mock_weather_item:
  "\<exists>item w'. generate_mock_weather_data E (JStr c) sid w = (Inr item, w') \<and>
     field item ''city'' = Some (JStr c) \<and>
     (\<exists>off. field item ''temperature'' =
              Some (JInt ((case map_of base_temps c of None \<Rightarrow> 15 | Some t \<Rightarrow> t) + off)) \<and>
            - 5 \<le> off \<and> off \<le> 10) \<and>
     (\<exists>d. field item ''description'' = Some (JStr d) \<and> d \<in> set conditions) \<and>
     (\<exists>h. field item ''humidity'' = Some (JInt h) \<and> 40 \<le> h \<and> h \<le> 80) \<and>
     (\<exists>v. field item ''windSpeed'' = Some (JFloat v) \<and> 0 \<le> v \<and> v \<le> 15) \<and>
     (\<exists>p. field item ''pressure'' = Some (JInt p) \<and> 990 \<le> p \<and> p \<le> 1020) \<and>
     field item ''coordinates'' =
       Some (case map_of coords c of None \<Rightarrow> latlon (JInt 0) (JInt 0) | Some ll \<Rightarrow> ll)"
proof -
  obtain off w1 where d1: "randint E (- 5) 10 w = (off, w1)" by (cases "randint E (- 5) 10 w")
  obtain d w2 where d2: "choice E conditions w1 = (d, w2)" by (cases "choice E conditions w1")
  obtain h w3 where d3: "randint E 40 80 w2 = (h, w3)" by (cases "randint E 40 80 w2")
  obtain u w4 where d4: "uniform E 0 15 w3 = (u, w4)" by (cases "uniform E 0 15 w3")
  obtain p w5 where d5: "randint E 990 1020 w4 = (p, w5)" by (cases "randint E 990 1020 w4")
  obtain ts w6 where d6: "now_isoformat E w5 = (ts, w6)" by (cases "now_isoformat E w5")
  have b1: "- 5 \<le> off \<and> off \<le> 10" using randint_bounds [of "- 5" 10 E w] d1 by simp
  have b2: "d \<in> set conditions"
    using choice_mem [of conditions E w1] d2 by (simp add: conditions_def)
  have b3: "40 \<le> h \<and> h \<le> 80" using randint_bounds [of 40 80 E w2] d3 by simp
  have "0 \<le> u \<and> u \<le> 15" using uniform_bounds [of 0 15 E w3] d4 by simp
  then have b4: "0 \<le> round1 u \<and> round1 u \<le> 15" using round1_bounds by blast
  have b5: "990 \<le> p \<and> p \<le> 1020" using randint_bounds [of 990 1020 E w4] d5 by simp
  have "generate_mock_weather_data E (JStr c) sid w =
      (Inr (JObj
         [(''city'', JStr c),
          (''temperature'', JInt ((case map_of base_temps c of None \<Rightarrow> 15 | Some t \<Rightarrow> t) + off)),
          (''description'', JStr d),
          (''humidity'', JInt h),
          (''windSpeed'', JFloat (round1 u)),
          (''pressure'', JInt p),
          (''timestamp'', JStr ts),
          (''source'', JStr (''pathway-service-'' @ py_str E sid)),
          (''sourceId'', sid),
          (''coordinates'',
             case map_of coords c of None \<Rightarrow> latlon (JInt 0) (JInt 0) | Some ll \<Rightarrow> ll)]), w6)"
    by (simp add: generate_mock_weather_data_def get_coordinates_def table_get_str
        d1 d2 d3 d4 d5 d6)
  then show ?thesis using b1 b2 b3 b4 b5 by (simp add: field_def)
qed

section \<open>Registry client and idle sweep\<close>

text \<open>
  C7. When the request to the registry fails or is answered with a status other than 200,
  \<open>get_registered_sources\<close> returns the empty list and raises nothing; the sweep then makes
  no other call, sleeps 30 seconds and ends without an error, and the loop goes on with the
  next sweep.
\<close>

theorem registry_failure_idle:
  assumes "(\<exists>e. net E (length w) (registry_request E) = Inl e) \<or>
           (\<exists>resp. net E (length w) (registry_request E) = Inr resp \<and> status resp \<noteq> 200)"
  shows "get_registered_sources E w = (Inr (JList []), w @ [Http (registry_request E)]) \<and>
         sweep_body E w = (Inr (), w @ [Http (registry_request E), Sleep 30]) \<and>
         sweep E w = w @ [Http (registry_request E), Sleep 30] \<and>
         run_source_monitoring E (Suc n) w =
           run_source_monitoring E n (w @ [Http (registry_request E), Sleep 30])"
proof -
  have g: "get_registered_sources E w = (Inr (JList []), w @ [Http (registry_request E)])"
    using assms
    by (auto simp: get_registered_sources_def sources_body_def http_def registry_request_def)
  have b: "sweep_body E w = (Inr (), w @ [Http (registry_request E), Sleep 30])"
    by (simp add: sweep_body_def g sleep_def)
  have s: "sweep E w = w @ [Http (registry_request E), Sleep 30]"
    by (simp add: sweep_def b)
  show ?thesis using g b s by simp
qed

text \<open>
  C7, at an unreachable registry and at a registry that answers 500: in both the sweep is
  the request followed by the sleep of 30 seconds.
\<close>

theorem registry_failure_idle_witness:
  "sweep quiet_env [] =
     [Http (Get (JStr ''http://localhost:5001/api/pathway/sources/active'') [] [] None), Sleep 30] \<and>
   sweep refusing_env [] =
     [Http (Get (JStr ''http://localhost:5001/api/pathway/sources/active'') [] [] None), Sleep 30]"
  using registry_failure_idle [of quiet_env "[]" 0] registry_failure_idle [of refusing_env "[]" 0]
  by (simp add: quiet_env_def refusing_env_def registry_request_def)

section \<open>Delivery client\<close>

text \<open>
  C6 fails as stated: a backend that answers 200 with a body that does not decode gets
  \<open>success = False\<close>, since \<open>response.json()\<close> raises inside the \<open>try\<close>. Here every answer
  of the network has status 200 and the delivery returns \<open>False\<close> with a connection error.
\<close>

theorem delivery_200_undecodable:
  "net garbled_env 2
     (ingest_request garbled_env
        (JObj [(''data'', JStr ''item''), (''type'', JStr ''rss''), (''sourceId'', JStr ''feed-1''),
               (''timestamp'', JStr ''2024-01-01T00:00:00''),
               (''source_metadata'',
                  JObj [(''sourceName'', JStr ''Daily Feed''), (''sourceType'', JStr ''rss''),
                        (''sourceUrl'', JStr ''http://feed.example/rss''),
                        (''maxEntries'', JInt 50)])])) =
     Inr \<lparr>status = 200, json_body = Inl (Exn ValueError ''Expecting value''),
          text_body = Inr ''<html>OK</html>''\<rparr> \<and>
   send_data_to_backend garbled_env (JStr ''item'') feed_source [] =
     (Inr (False, JStr ''Connection error: Expecting value''),
      [SendData (JStr ''item'') feed_source, ReadClock,
       Http (ingest_request garbled_env
        (JObj [(''data'', JStr ''item''), (''type'', JStr ''rss''), (''sourceId'', JStr ''feed-1''),
               (''timestamp'', JStr ''2024-01-01T00:00:00''),
               (''source_metadata'',
                  JObj [(''sourceName'', JStr ''Daily Feed''), (''sourceType'', JStr ''rss''),
                        (''sourceUrl'', JStr ''http://feed.example/rss''),
                        (''maxEntries'', JInt 50)])]))])"
  by (simp add: send_data_to_backend_def send_body_def payload_def http_def and_then_def
      now_isoformat_def garbled_env_def quiet_env_def feed_source_def str_exn_def
      ingest_request_def)

text \<open>
  C6, amended. \<open>send_data_to_backend\<close> never raises. It returns \<open>success = True\<close> exactly
  when the payload could be built, the backend answered 200 and the body decoded to a JSON
  object; the message is then the \<open>message\<close> field of that object, or \<open>Success\<close> when the
  object has none. Every other outcome is \<open>success = False\<close>, and its message is fixed by
  what happened: an answer with a status other than 200 whose text can be read gives
  \<open>HTTP <status>: <text>\<close>; a key missing from the source configuration, a request that
  raises or times out, a 200 answer whose body does not decode or does not decode to an
  object, and an answer whose text cannot be read give \<open>Connection error: \<close> followed by
  the text of the exception that was raised.
\<close>

theorem delivery_outcome:
  "\<exists>ok msg w'. send_data_to_backend E d sc w = (Inr (ok, msg), w') \<and>
     (ok \<longleftrightarrow>
        (\<exists>p w1 resp kvs.
           payload E d sc (w @ [SendData d sc]) = (Inr p, w1) \<and>
           net E (length w1) (ingest_request E p) = Inr resp \<and>
           status resp = 200 \<and> json_body resp = Inr (JObj kvs) \<and>
           msg = (case map_of kvs ''message'' of None \<Rightarrow> JStr ''Success'' | Some m \<Rightarrow> m))) \<and>
     (\<forall>e w1. payload E d sc (w @ [SendData d sc]) = (Inl e, w1) \<longrightarrow>
        \<not> ok \<and> msg = connection_error e) \<and>
     (\<forall>p w1. payload E d sc (w @ [SendData d sc]) = (Inr p, w1) \<longrightarrow>
        (case net E (length w1) (ingest_request E p) of
           Inl e \<Rightarrow> \<not> ok \<and> msg = connection_error e
         | Inr resp \<Rightarrow>
             if status resp = 200 then
               (case json_body resp of
                  Inl e \<Rightarrow> \<not> ok \<and> msg = connection_error e
                | Inr result \<Rightarrow>
                    (\<forall>e. py_get result ''message'' (JStr ''Success'') = Inl e \<longrightarrow>
                       \<not> ok \<and> msg = connection_error e))
             else
               (case text_body resp of
                  Inl e \<Rightarrow> \<not> ok \<and> msg = connection_error e
                | Inr error_text \<Rightarrow>
                    \<not> ok \<and> msg = JStr (''HTTP '' @ str_int (status resp) @ '': '' @ error_text))))"
proof (cases "payload E d sc (w @ [SendData d sc])")
  case (Pair r w1)
  show ?thesis
  proof (cases r)
    case (Inl e)
    then show ?thesis using Pair
      by (auto simp: send_data_to_backend_def send_body_def connection_error_def)
  next
    case (Inr p)
    note p = Inr
    show ?thesis
    proof (cases "net E (length w1) (ingest_request E p)")
      case (Inl e)
      then show ?thesis using Pair p
        by (auto simp: send_data_to_backend_def send_body_def http_def ingest_request_def
            connection_error_def)
    next
      case (Inr resp)
      note resp = Inr
      show ?thesis
      proof (cases "status resp = 200")
        case True
        show ?thesis
        proof (cases "json_body resp")
          case (Inl e)
          then show ?thesis using Pair p resp True
            by (auto simp: send_data_to_backend_def send_body_def http_def ingest_request_def
                and_then_def connection_error_def)
        next
          case (Inr result)
          then show ?thesis using Pair p resp True
            by (cases result)
               (auto simp: send_data_to_backend_def send_body_def http_def ingest_request_def
                  and_then_def connection_error_def)
        qed
      next
        case False
        then show ?thesis using Pair p resp
          by (cases "text_body resp")
             (auto simp: send_data_to_backend_def send_body_def http_def ingest_request_def
                connection_error_def)
      qed
    qed
  qed
qed

lemma str_int_500: "str_int 500 = ''500''"
  by code_simp

text \<open>
  C6, amended, at three backends and at a configuration without \<open>sourceType\<close>: one backend
  answers 200 with the message \<open>ok\<close>, one answers 500, one cannot be reached.
\<close>

theorem delivery_outcome_witness:
  "fst (send_data_to_backend ok_env (JStr ''item'') feed_source []) = Inr (True, JStr ''ok'') \<and>
   fst (send_data_to_backend refusing_env (JStr ''item'') feed_source []) =
     Inr (False, JStr ''HTTP 500: Internal Server Error'') \<and>
   fst (send_data_to_backend quiet_env (JStr ''item'') feed_source []) =
     Inr (False, JStr ''Connection error: Cannot connect to host'') \<and>
   fst (send_data_to_backend ok_env (JStr ''item'') bare_source []) =
     Inr (False, JStr (''Connection error: '' @ quote ''sourceType''))"
  using delivery_outcome [of ok_env "JStr ''item''" feed_source "[]"]
    delivery_outcome [of refusing_env "JStr ''item''" feed_source "[]"]
    delivery_outcome [of quiet_env "JStr ''item''" feed_source "[]"]
    delivery_outcome [of ok_env "JStr ''item''" bare_source "[]"]
  by (simp add: send_data_to_backend_def send_body_def payload_def http_def and_then_def
      now_isoformat_def ok_env_def refusing_env_def quiet_env_def feed_source_def str_int_500
      str_exn_def bare_source_def connection_error_def)

section \<open>Feed parser: shape and errors\<close>

text \<open>
  What \<open>get_xml_text\<close> returns is already stripped, so stripping it again changes nothing.
\<close>

lemma dropWhile_rev_strip:
  "dropWhile P (rev (dropWhile P (rev (dropWhile P s)))) = rev (dropWhile P (rev (dropWhile P s)))"
proof -
  define u where "u = dropWhile P s"
  define r where "r = dropWhile P (rev u)"
  have u: "u = rev r @ rev (takeWhile P (rev u))"
    by (metis r_def rev_append rev_rev_ident takeWhile_dropWhile_id)
  have "dropWhile P (rev r) = rev r"
  proof (cases "rev r")
    case Nil
    then show ?thesis by simp
  next
    case (Cons x xs)
    then have "u \<noteq> []" and "hd u = x"
      using u by (metis append_is_Nil_conv list.distinct(1), metis hd_append2 list.sel(1) list.distinct(1))
    then have "\<not> P x" using hd_dropWhile [of P s] by (simp add: u_def)
    then show ?thesis using Cons by simp
  qed
  then show ?thesis unfolding r_def u_def .
qed

lemma strip_strip: "strip (strip s) = strip s"
  by (simp add: strip_def dropWhile_rev_strip)

lemma strip_Nil: "strip [] = []"
  by (simp add: strip_def)

lemma get_xml_text_stripped: "strip (or_empty (get_xml_text it tags)) = or_empty (get_xml_text it tags)"
  by (induction tags) (auto simp: or_empty_def strip_Nil strip_strip split: option.splits)

lemma titled_iff: "or_empty (get_xml_text it [''title'']) \<noteq> [] \<longleftrightarrow> titled it"
  by (auto simp: titled_def or_empty_def strip_Nil split: option.splits)

lemma parse_item_untitled: "\<not> titled it \<Longrightarrow> parse_rss_item E sc it w = (Inr None, w)"
  using titled_iff [of it] by (simp add: parse_rss_item_def Let_def)

lemma parse_item_titled:
  assumes "py_getitem sc ''sourceId'' = Inr sid" "py_getitem sc ''sourceName'' = Inr name"
    "py_getitem sc ''sourceUrl'' = Inr url" "titled it"
  shows "\<exists>a w1. parse_rss_item E sc it w = (Inr (Some a), w1) \<and>
           field a ''title'' = Some (JStr (or_empty (get_xml_text it [''title'']))) \<and>
           field a ''description'' =
             Some (JStr (clipped (or_empty (get_xml_text it description_tags))))"
proof -
  have t: "or_empty (get_xml_text it [''title'']) \<noteq> []" using assms(4) titled_iff by blast
  obtain ts w1 where ts:
    "(if or_empty (get_xml_text it [''pubDate'', ''published'', atom ''published'']) \<noteq> []
      then (or_empty (get_xml_text it [''pubDate'', ''published'', atom ''published'']), w)
      else now_isoformat E w) = (ts, w1)"
    by (metis surj_pair)
  show ?thesis
    unfolding parse_rss_item_def Let_def
    using t ts assms(1-3) get_xml_text_stripped [of it "[''title'']"]
      get_xml_text_stripped [of it description_tags]
    by (simp add: and_then_def field_def clipped_def description_tags_def del: get_xml_text.simps)
qed

lemma parse_item_raises_untouched:
  "parse_rss_item E sc it w = (Inl e, w1) \<Longrightarrow>
   parse_rss_loop E sc (it # rest) acc w = parse_rss_loop E sc rest acc w1"
  by simp

lemma parse_rss_loop_append:
  "parse_rss_loop E sc (xs @ ys) acc w =
     (case parse_rss_loop E sc xs acc w of (a, w1) \<Rightarrow> parse_rss_loop E sc ys a w1)"
  by (induction xs arbitrary: acc w) (auto split: prod.splits sum.splits option.splits)

lemma parse_rss_loop_acc: "\<exists>new. fst (parse_rss_loop E sc xs acc w) = acc @ new"
proof (induction xs arbitrary: acc w)
  case Nil
  show ?case by simp
next
  case (Cons x xs)
  obtain r w1 where r: "parse_rss_item E sc x w = (r, w1)" by (cases "parse_rss_item E sc x w")
  show ?case
  proof (cases r)
    case (Inl e)
    then show ?thesis using r Cons.IH [of acc w1] by simp
  next
    case (Inr o1)
    show ?thesis
    proof (cases o1)
      case None
      then show ?thesis using r Inr Cons.IH [of acc w1] by simp
    next
      case (Some a)
      obtain new where "fst (parse_rss_loop E sc xs (acc @ [a]) w1) = (acc @ [a]) @ new"
        using Cons.IH [of "acc @ [a]" w1] by blast
      then show ?thesis using r Inr Some by simp
    qed
  qed
qed

lemma parse_rss_loop_length:
  "\<exists>new w'. parse_rss_loop E sc xs acc w = (acc @ new, w') \<and> length new \<le> length xs"
proof (induction xs arbitrary: acc w)
  case Nil
  show ?case by simp
next
  case (Cons x xs)
  obtain r w1 where r: "parse_rss_item E sc x w = (r, w1)" by (cases "parse_rss_item E sc x w")
  show ?case
  proof (cases r)
    case (Inl e)
    then show ?thesis using r Cons.IH [of acc w1] by auto
  next
    case (Inr o1)
    show ?thesis
    proof (cases o1)
      case None
      then show ?thesis using r Inr Cons.IH [of acc w1] by auto
    next
      case (Some a)
      obtain new w' where "parse_rss_loop E sc xs (acc @ [a]) w1 = ((acc @ [a]) @ new, w')"
        "length new \<le> length xs"
        using Cons.IH [of "acc @ [a]" w1] by blast
      then show ?thesis using r Inr Some by simp
    qed
  qed
qed

lemma parse_rss_loop_titled:
  assumes "py_getitem sc ''sourceId'' = Inr sid" "py_getitem sc ''sourceName'' = Inr name"
    "py_getitem sc ''sourceUrl'' = Inr url"
  shows "\<exists>new w'. parse_rss_loop E sc xs acc w = (acc @ new, w') \<and>
           map (\<lambda>a. field a ''title'') new =
             map (\<lambda>it. Some (JStr (or_empty (get_xml_text it [''title''])))) (filter titled xs) \<and>
           map (\<lambda>a. field a ''description'') new =
             map (\<lambda>it. Some (JStr (clipped (or_empty (get_xml_text it description_tags)))))
               (filter titled xs)"
proof (induction xs arbitrary: acc w)
  case Nil
  show ?case by simp
next
  case (Cons x xs)
  show ?case
  proof (cases "titled x")
    case False
    then show ?thesis using Cons.IH [of acc w] parse_item_untitled [of x E sc w] by simp
  next
    case True
    obtain a w1 where a: "parse_rss_item E sc x w = (Inr (Some a), w1)"
      "field a ''title'' = Some (JStr (or_empty (get_xml_text x [''title''])))"
      "field a ''description'' = Some (JStr (clipped (or_empty (get_xml_text x description_tags))))"
      using parse_item_titled [OF assms True, of E w] by blast
    obtain new w' where n: "parse_rss_loop E sc xs (acc @ [a]) w1 = ((acc @ [a]) @ new, w')"
      "map (\<lambda>a. field a ''title'') new =
         map (\<lambda>it. Some (JStr (or_empty (get_xml_text it [''title''])))) (filter titled xs)"
      "map (\<lambda>a. field a ''description'') new =
         map (\<lambda>it. Some (JStr (clipped (or_empty (get_xml_text it description_tags)))))
           (filter titled xs)"
      using Cons.IH [of "acc @ [a]" w1] by blast
    have "parse_rss_loop E sc (x # xs) acc w = (acc @ (a # new), w')"
      using a(1) n(1) by simp
    then show ?thesis using a(2,3) n(2,3) True
      by (intro exI [of _ "a # new"] exI [of _ w']) (simp del: get_xml_text.simps)
  qed
qed

text \<open>
  C5. \<open>parse_rss_content\<close> never raises: for every input string it returns a list. When the
  XML library rejects the input the list is empty and nothing else happens. An item whose
  extraction raises is skipped and the loop goes on with the items after it: the loop over
  \<open>xs @ ys\<close> is the loop over \<open>xs\<close> followed by the loop over \<open>ys\<close>, whatever happened in
  \<open>xs\<close>, and the articles collected so far are never lost.
\<close>

theorem parser_never_raises:
  "(\<exists>items w'. parse_rss_content E content sc w = (Inr items, w')) \<and>
   ((\<exists>e. xml_fromstring E content = Inl e) \<longrightarrow> parse_rss_content E content sc w = (Inr [], w)) \<and>
   ((\<exists>e. fst (parse_rss_item E sc it w) = Inl e) \<longrightarrow>
      parse_rss_loop E sc (it # rest) acc w =
        parse_rss_loop E sc rest acc (snd (parse_rss_item E sc it w))) \<and>
   parse_rss_loop E sc (xs @ ys) acc w =
     (case parse_rss_loop E sc xs acc w of (a, w1) \<Rightarrow> parse_rss_loop E sc ys a w1) \<and>
   (\<exists>new. fst (parse_rss_loop E sc xs acc w) = acc @ new)"
proof -
  have 1: "\<exists>items w'. parse_rss_content E content sc w = (Inr items, w')"
    by (simp add: parse_rss_content_def split: sum.splits prod.splits)
  have 2: "(\<exists>e. xml_fromstring E content = Inl e) \<longrightarrow> parse_rss_content E content sc w = (Inr [], w)"
    by (auto simp: parse_rss_content_def)
  have 3: "(\<exists>e. fst (parse_rss_item E sc it w) = Inl e) \<longrightarrow>
      parse_rss_loop E sc (it # rest) acc w =
        parse_rss_loop E sc rest acc (snd (parse_rss_item E sc it w))"
    by (cases "parse_rss_item E sc it w") auto
  show ?thesis using 1 2 3 parse_rss_loop_append parse_rss_loop_acc by blast
qed

text \<open>
  C5, on an input the XML library rejects, and on two items whose extraction raises (the
  source configuration has no \<open>sourceName\<close>): the second item is still visited, as its clock
  reading shows.
\<close>

theorem parser_never_raises_witness:
  "parse_rss_content quiet_env ''<rss><item>'' feed_source [] = (Inr [], []) \<and>
   parse_rss_loop quiet_env bare_source [headline ''first'', headline ''second''] [] [] =
     ([], [ReadClock, ReadClock])"
proof -
  have x: "\<exists>e. xml_fromstring quiet_env ''<rss><item>'' = Inl e"
    by (simp add: quiet_env_def)
  have a: "parse_rss_content quiet_env ''<rss><item>'' feed_source [] = (Inr [], [])"
    using parser_never_raises [where E = quiet_env and content = "''<rss><item>''"
        and sc = feed_source and w = "[]"] x
    by blast
  have r1: "parse_rss_item quiet_env bare_source (headline ''first'') [] =
      (Inl (Exn KeyError (quote ''sourceName'')), [ReadClock])"
    by code_simp
  have r2: "parse_rss_item quiet_env bare_source (headline ''second'') [ReadClock] =
      (Inl (Exn KeyError (quote ''sourceName'')), [ReadClock, ReadClock])"
    by code_simp
  have "parse_rss_loop quiet_env bare_source (headline ''first'' # [headline ''second'']) [] [] =
      parse_rss_loop quiet_env bare_source [headline ''second''] []
        (snd (parse_rss_item quiet_env bare_source (headline ''first'') []))"
    using parser_never_raises [where E = quiet_env and sc = bare_source
        and it = "headline ''first''" and w = "[]" and rest = "[headline ''second'']"
        and acc = "[]"] r1
    by simp
  then have b: "parse_rss_loop quiet_env bare_source [headline ''first'', headline ''second''] [] [] =
      ([], [ReadClock, ReadClock])"
    using r1 r2 by simp
  show ?thesis using a b by simp
qed

text \<open>
  C4. For a document the XML library accepts: the output has at most 10 articles; a
  document without \<open>item\<close> and without Atom \<open>entry\<close> nodes gives the empty list; and for a
  source configuration that has the keys \<open>sourceId\<close>, \<open>sourceName\<close> and \<open>sourceUrl\<close> the
  articles are those of the titled nodes among the first 10, in order, so a node without a
  title is left out, and 15 \<open>item\<close> nodes that all have a title give exactly 10 articles. A
  node has a title when its first \<open>title\<close> child has text that is not only white space. The
  description of an article is the extracted description cut to 500 characters, followed by
  \<open>...\<close> when it was longer: a description of length 600 becomes its first 500 characters
  and the ellipsis, 503 characters in all.
\<close>

theorem parser_output_shape:
  assumes "xml_fromstring E content = Inr doc"
  shows "\<exists>items w'. parse_rss_content E content sc w = (Inr items, w') \<and>
     length items \<le> 10 \<and>
     (findall doc ''item'' = [] \<and> findall doc (atom ''entry'') = [] \<longrightarrow> items = []) \<and>
     ((\<exists>sid name url. py_getitem sc ''sourceId'' = Inr sid \<and>
         py_getitem sc ''sourceName'' = Inr name \<and> py_getitem sc ''sourceUrl'' = Inr url) \<longrightarrow>
        map (\<lambda>a. field a ''title'') items =
          map (\<lambda>it. Some (JStr (or_empty (get_xml_text it [''title'']))))
            (filter titled (take 10 (rss_nodes doc))) \<and>
        map (\<lambda>a. field a ''description'') items =
          map (\<lambda>it. Some (JStr (clipped (or_empty (get_xml_text it description_tags)))))
            (filter titled (take 10 (rss_nodes doc))) \<and>
        (length (findall doc ''item'') = 15 \<and> list_all titled (findall doc ''item'') \<longrightarrow>
           length items = 10)) \<and>
     (\<forall>d. length d = 600 \<longrightarrow> clipped d = take 500 d @ ''...'' \<and> length (clipped d) = 503)"
proof -
  let ?nodes = "take 10 (rss_nodes doc)"
  obtain items w' where l: "parse_rss_loop E sc ?nodes [] w = (items, w')"
    "length items \<le> length ?nodes"
    using parse_rss_loop_length [of E sc ?nodes "[]" w] by auto
  have c: "parse_rss_content E content sc w = (Inr items, w')"
    using assms l(1) by (simp add: parse_rss_content_def)
  have le: "length items \<le> 10" using l(2) by simp
  have none: "findall doc ''item'' = [] \<and> findall doc (atom ''entry'') = [] \<longrightarrow> items = []"
    using l(1) by (auto simp: rss_nodes_def)
  have keys: "map (\<lambda>a. field a ''title'') items =
          map (\<lambda>it. Some (JStr (or_empty (get_xml_text it [''title''])))) (filter titled ?nodes) \<and>
        map (\<lambda>a. field a ''description'') items =
          map (\<lambda>it. Some (JStr (clipped (or_empty (get_xml_text it description_tags)))))
            (filter titled ?nodes) \<and>
        (length (findall doc ''item'') = 15 \<and> list_all titled (findall doc ''item'') \<longrightarrow>
           length items = 10)"
    if k: "py_getitem sc ''sourceId'' = Inr sid" "py_getitem sc ''sourceName'' = Inr name"
      "py_getitem sc ''sourceUrl'' = Inr url" for sid name url
  proof -
    have t: "map (\<lambda>a. field a ''title'') items =
          map (\<lambda>it. Some (JStr (or_empty (get_xml_text it [''title''])))) (filter titled ?nodes)"
      and d: "map (\<lambda>a. field a ''description'') items =
          map (\<lambda>it. Some (JStr (clipped (or_empty (get_xml_text it description_tags)))))
            (filter titled ?nodes)"
      using parse_rss_loop_titled [OF k, of E ?nodes "[]" w] l(1) by auto
    have "length items = 10"
      if f: "length (findall doc ''item'') = 15" "list_all titled (findall doc ''item'')"
    proof -
      have n: "rss_nodes doc = findall doc ''item''"
        using f(1) by (cases "findall doc ''item''") (simp_all add: rss_nodes_def)
      have "\<forall>x \<in> set ?nodes. titled x"
        using f(2) n by (metis in_set_takeD list_all_iff)
      then have "filter titled ?nodes = ?nodes" by simp
      then have "length (map (\<lambda>a. field a ''title'') items) = length ?nodes" using t by simp
      then show ?thesis using n f(1) by simp
    qed
    then show ?thesis using t d by blast
  qed
  have clip: "\<forall>d. length d = 600 \<longrightarrow> clipped d = take 500 d @ ''...'' \<and> length (clipped d) = 503"
    by (simp add: clipped_def)
  show ?thesis using c le none keys clip by blast
qed

text \<open>
  C4, on a feed of 15 titled items, on a feed without items, on a feed of four items of
  which one has no title and one a blank title, and on a description of 600 characters.
\<close>

theorem parser_output_shape_witness:
  "(\<exists>items w'. parse_rss_content feed_env ''fifteen'' feed_source [] = (Inr items, w') \<and>
      length items = 10) \<and>
   (\<exists>items w'. parse_rss_content feed_env ''empty'' feed_source [] = (Inr items, w') \<and>
      items = []) \<and>
   (\<exists>items w'. parse_rss_content feed_env ''mixed'' feed_source [] = (Inr items, w') \<and>
      map (\<lambda>a. field a ''title'') items = [Some (JStr ''first''), Some (JStr ''second'')]) \<and>
   clipped (replicate 600 (CHR ''a'')) = replicate 500 (CHR ''a'') @ ''...''"
proof -
  have k: "\<exists>sid name url. py_getitem feed_source ''sourceId'' = Inr sid \<and>
         py_getitem feed_source ''sourceName'' = Inr name \<and>
         py_getitem feed_source ''sourceUrl'' = Inr url"
    by (simp add: feed_source_def)
  have x15: "xml_fromstring feed_env ''fifteen'' = Inr feed15"
    and x0: "xml_fromstring feed_env ''empty'' = Inr (Element ''rss'' None [Element ''channel'' None []])"
    and xm: "xml_fromstring feed_env ''mixed'' = Inr mixed_feed"
    by (simp_all add: feed_env_def quiet_env_def)
  have n15: "length (findall feed15 ''item'') = 15" by code_simp
  have t15: "list_all titled (findall feed15 ''item'')" by code_simp
  have n0: "findall (Element ''rss'' None [Element ''channel'' None []]) ''item'' = []"
    "findall (Element ''rss'' None [Element ''channel'' None []]) (atom ''entry'') = []"
    by (simp_all add: findall_def atom_def)
  have tm: "map (\<lambda>it. Some (JStr (or_empty (get_xml_text it [''title''])))) (filter titled (take 10 (rss_nodes mixed_feed))) =
      [Some (JStr ''first''), Some (JStr ''second'')]" by code_simp
  have a: "\<exists>items w'. parse_rss_content feed_env ''fifteen'' feed_source [] = (Inr items, w') \<and>
      length items = 10"
    using parser_output_shape [OF x15, of feed_source "[]"] k n15 t15 by blast
  have b: "\<exists>items w'. parse_rss_content feed_env ''empty'' feed_source [] = (Inr items, w') \<and>
      items = []"
    using parser_output_shape [OF x0, of feed_source "[]"] n0 by blast
  have c: "\<exists>items w'. parse_rss_content feed_env ''mixed'' feed_source [] = (Inr items, w') \<and>
      map (\<lambda>a. field a ''title'') items = [Some (JStr ''first''), Some (JStr ''second'')]"
    using parser_output_shape [OF xm, of feed_source "[]"] k tm by metis
  have "\<forall>d. length d = 600 \<longrightarrow> clipped d = take 500 d @ ''...'' \<and> length (clipped d) = 503"
    using parser_output_shape [OF x15, of feed_source "[]"] by blast
  then have "clipped (replicate 600 (CHR ''a'')) = take 500 (replicate 600 (CHR ''a'')) @ ''...''"
    by simp
  then have d: "clipped (replicate 600 (CHR ''a'')) = replicate 500 (CHR ''a'') @ ''...''"
    by simp
  show ?thesis using a b c d by blast
qed

section \<open>What a call adds to the history\<close>

text \<open>
  Every function of the service only adds events to the history, and the events it adds are
  issued for its own source or for none.
\<close>

lemma extends_refl: "extends P w w"
  by (simp add: extends_def)

lemma extends_trans: "extends P w w1 \<Longrightarrow> extends P w1 w2 \<Longrightarrow> extends P w w2"
  by (auto simp: extends_def)

lemma extends_snoc: "P e \<Longrightarrow> extends P w (w @ [e])"
  by (simp add: extends_def)

lemma extends_step: "P e \<Longrightarrow> extends P (w @ [e]) w' \<Longrightarrow> extends P w w'"
  by (auto simp: extends_def)

lemma extends_mono: "extends P w w' \<Longrightarrow> (\<And>e. P e \<Longrightarrow> Q e) \<Longrightarrow> extends Q w w'"
  by (auto simp: extends_def list_all_iff)

lemma quiet_own: "extends quiet w w' \<Longrightarrow> extends (own s) w w'"
  by (erule extends_mono) (simp add: quiet_def own_def)

lemma quiet_simps: "quiet Draw" "quiet ReadClock" "quiet (Http rq)" "quiet (Sleep n)"
  by (simp_all add: quiet_def)

lemma own_simps: "own s Draw" "own s ReadClock" "own s (Http rq)" "own s (Sleep n)"
  "own s (ProcessSource s)" "own s (FetchWeather s)" "own s (FetchRss s)" "own s (SendData d s)"
  by (simp_all add: own_def)

lemma now_isoformat_quiet: "now_isoformat E w = (ts, w') \<Longrightarrow> extends quiet w w'"
  by (auto simp: now_isoformat_def extends_def quiet_def)

lemma now_quiet: "now E w = (t, w') \<Longrightarrow> extends quiet w w'"
  by (auto simp: now_def extends_def quiet_def)

lemma http_quiet: "http E rq w = (r, w') \<Longrightarrow> extends quiet w w'"
  by (auto simp: http_def extends_def quiet_def)

lemma generate_mock_weather_quiet:
  "generate_mock_weather_data E city sid w = (r, w') \<Longrightarrow> extends quiet w w'"
  by (auto simp: generate_mock_weather_data_def randint_def choice_def uniform_def
      now_isoformat_def extends_def quiet_def split: sum.splits)

lemma live_weather_quiet: "live_weather_item E data sc w = (r, w') \<Longrightarrow> extends quiet w w'"
  unfolding live_weather_item_def
  by (auto split: sum.splits prod.splits dest: now_isoformat_quiet intro: extends_refl)

lemma mock_for_city_quiet: "mock_for_city E sc city w = (r, w') \<Longrightarrow> extends quiet w w'"
  by (auto simp: mock_for_city_def split: sum.splits
      dest: generate_mock_weather_quiet intro: extends_refl)

lemma weather_attempt_quiet:
  "weather_attempt E sc k city w = (r, w') \<Longrightarrow> extends quiet w w'"
  unfolding weather_attempt_def
  by (auto split: if_splits sum.splits prod.splits
      dest!: http_quiet live_weather_quiet mock_for_city_quiet
      intro: extends_refl extends_trans)

lemma weather_city_quiet: "weather_city E sc k city w = (r, w') \<Longrightarrow> extends quiet w w'"
  unfolding weather_city_def
  by (auto split: sum.splits prod.splits
      dest!: weather_attempt_quiet mock_for_city_quiet intro: extends_trans)

lemma weather_loop_quiet: "weather_loop E sc k cs acc w = (r, w') \<Longrightarrow> extends quiet w w'"
proof (induction cs arbitrary: acc w)
  case Nil
  then show ?case by (simp add: extends_refl)
next
  case (Cons c cs)
  obtain r1 w1 where c: "weather_city E sc k c w = (r1, w1)" by (cases "weather_city E sc k c w")
  have e1: "extends quiet w w1" using c by (rule weather_city_quiet)
  show ?case
  proof (cases r1)
    case (Inl e)
    then show ?thesis using Cons.prems c e1 by simp
  next
    case (Inr item)
    then have "weather_loop E sc k cs (acc @ [item]) w1 = (r, w')" using Cons.prems c by simp
    then have "extends quiet w1 w'" by (rule Cons.IH)
    then show ?thesis using e1 extends_trans by blast
  qed
qed

lemma fetch_weather_body_quiet: "fetch_weather_body E sc w = (r, w') \<Longrightarrow> extends quiet w w'"
  unfolding fetch_weather_body_def
  by (auto split: sum.splits dest!: weather_loop_quiet intro: extends_refl)

lemma fetch_weather_own: "fetch_weather_data E sc w = (r, w') \<Longrightarrow> extends (own sc) w w'"
  unfolding fetch_weather_data_def
  by (auto split: sum.splits prod.splits dest!: fetch_weather_body_quiet
      intro: extends_step [of "own sc" "FetchWeather sc"] quiet_own simp: own_simps)

lemma parse_rss_item_quiet: "parse_rss_item E sc it w = (r, w') \<Longrightarrow> extends quiet w w'"
  unfolding parse_rss_item_def Let_def
  by (auto split: if_splits sum.splits prod.splits dest: now_isoformat_quiet intro: extends_refl
      simp del: get_xml_text.simps)

lemma parse_rss_loop_quiet: "parse_rss_loop E sc xs acc w = (r, w') \<Longrightarrow> extends quiet w w'"
proof (induction xs arbitrary: acc w)
  case Nil
  then show ?case by (simp add: extends_refl)
next
  case (Cons x xs)
  obtain r1 w1 where c: "parse_rss_item E sc x w = (r1, w1)" by (cases "parse_rss_item E sc x w")
  have e1: "extends quiet w w1" using c by (rule parse_rss_item_quiet)
  have "\<exists>acc1. parse_rss_loop E sc xs acc1 w1 = (r, w')"
    using Cons.prems c by (auto split: sum.splits option.splits)
  then have "extends quiet w1 w'" using Cons.IH by blast
  then show ?case using e1 extends_trans by blast
qed

lemma parse_rss_content_quiet: "parse_rss_content E content sc w = (r, w') \<Longrightarrow> extends quiet w w'"
  unfolding parse_rss_content_def
  by (auto split: sum.splits prod.splits dest!: parse_rss_loop_quiet intro: extends_refl)

lemma mock_article_quiet: "mock_article E sc h d s w = (r, w') \<Longrightarrow> extends quiet w w'"
  unfolding mock_article_def
  by (auto split: sum.splits prod.splits dest: now_isoformat_quiet intro: extends_refl)

lemma generate_mock_rss_quiet: "generate_mock_rss_data E sc w = (r, w') \<Longrightarrow> extends quiet w w'"
  unfolding generate_mock_rss_data_def
  by (auto split: sum.splits prod.splits dest!: mock_article_quiet intro: extends_trans)

lemma fetch_rss_body_quiet: "fetch_rss_body E sc w = (r, w') \<Longrightarrow> extends quiet w w'"
  unfolding fetch_rss_body_def
  by (auto split: if_splits sum.splits prod.splits
      dest!: http_quiet parse_rss_content_quiet generate_mock_rss_quiet
      intro: extends_refl extends_trans)

lemma fetch_rss_own:
  assumes "fetch_rss_data E sc w = (r, w')"
  shows "extends (own sc) w w'"
proof -
  obtain r0 w0 where b: "fetch_rss_body E sc (w @ [FetchRss sc]) = (r0, w0)"
    by (cases "fetch_rss_body E sc (w @ [FetchRss sc])")
  have e0: "extends quiet (w @ [FetchRss sc]) w0" using b by (rule fetch_rss_body_quiet)
  have "extends quiet w0 w'"
    using assms b
    by (cases r0) (auto simp: fetch_rss_data_def dest: generate_mock_rss_quiet intro: extends_refl)
  then have "extends (own sc) (w @ [FetchRss sc]) w'"
    using e0 extends_trans quiet_own by blast
  then show ?thesis by (rule extends_step [rotated]) (simp add: own_simps)
qed

lemma payload_quiet: "payload E d sc w = (r, w') \<Longrightarrow> extends quiet w w'"
  unfolding payload_def
  by (auto split: sum.splits prod.splits dest: now_isoformat_quiet intro: extends_refl)

lemma send_body_quiet: "send_body E d sc w = (r, w') \<Longrightarrow> extends quiet w w'"
  unfolding send_body_def
  by (auto split: if_splits sum.splits prod.splits dest!: payload_quiet http_quiet
      intro: extends_trans)

lemma send_data_own: "send_data_to_backend E d sc w = (r, w') \<Longrightarrow> extends (own sc) w w'"
  unfolding send_data_to_backend_def
  by (auto split: sum.splits prod.splits dest!: send_body_quiet
      intro: extends_step [of "own sc" "SendData d sc"] quiet_own simp: own_simps)

lemma send_all_own: "send_all E sc items n w = (r, w') \<Longrightarrow> extends (own sc) w w'"
proof (induction items arbitrary: n w)
  case Nil
  then show ?case by (simp add: extends_refl)
next
  case (Cons x xs)
  obtain r1 w1 where c: "send_data_to_backend E x sc w = (r1, w1)"
    by (cases "send_data_to_backend E x sc w")
  have e1: "extends (own sc) w w1" using c by (rule send_data_own)
  show ?case
  proof (cases r1)
    case (Inl e)
    then show ?thesis using Cons.prems c e1 by simp
  next
    case (Inr p)
    then have "\<exists>n1. send_all E sc xs n1 w1 = (r, w')"
      using Cons.prems c by (cases p) auto
    then have "extends (own sc) w1 w'" using Cons.IH by blast
    then show ?thesis using e1 extends_trans by blast
  qed
qed

lemma process_try_own: "process_try E sc ty w = (r, w') \<Longrightarrow> extends (own sc) w w'"
  unfolding process_try_def
  by (auto split: if_splits sum.splits prod.splits option.splits
      dest!: fetch_weather_own fetch_rss_own send_all_own
      intro: extends_refl extends_trans)

lemma process_source_first:
  "\<exists>evs. snd (process_source E sc w) = w @ ProcessSource sc # evs \<and> list_all (own sc) evs"
proof -
  have "extends (own sc) (w @ [ProcessSource sc]) (snd (process_source E sc w))"
    unfolding process_source_def Let_def
    by (auto split: sum.splits prod.splits dest!: process_try_own intro: extends_refl)
  then show ?thesis by (auto simp: extends_def)
qed

lemma process_source_own: "process_source E sc w = (r, w') \<Longrightarrow> extends (own sc) w w'"
  using process_source_first [of E sc w] by (auto simp: extends_def own_simps)

section \<open>Scheduler: eligibility and due-ness\<close>

text \<open>
  One round of the loop over the sources adds only events of its own source; a source that
  is not eligible adds nothing.
\<close>

lemma due_try_own: "due_try E s w = (r, w') \<Longrightarrow> extends (own s) w w'"
  unfolding due_try_def
  by (auto split: if_splits sum.splits prod.splits json.splits option.splits
      dest!: process_source_own now_quiet intro: extends_refl extends_trans quiet_own)

lemma monitor_source_own: "monitor_source E s w = (r, w') \<Longrightarrow> extends (own s) w w'"
  unfolding monitor_source_def
  by (auto split: if_splits sum.splits prod.splits dest!: due_try_own intro: extends_refl)

lemma monitor_source_ineligible: "\<not> eligible s \<Longrightarrow> snd (monitor_source E s w) = w"
  by (simp add: monitor_source_def split: sum.splits)

lemma monitor_loop_other:
  assumes "\<not> eligible s" "monitor_loop E srcs w = (r, w')"
  shows "extends (\<lambda>e. about e \<noteq> Some s) w w'"
  using assms(2)
proof (induction srcs arbitrary: w)
  case Nil
  then show ?case by (simp add: extends_refl)
next
  case (Cons x xs)
  obtain r1 w1 where c: "monitor_source E x w = (r1, w1)" by (cases "monitor_source E x w")
  have e1: "extends (\<lambda>e. about e \<noteq> Some s) w w1"
  proof (cases "x = s")
    case True
    then have "w1 = w" using c monitor_source_ineligible [OF assms(1), of E w] by simp
    then show ?thesis by (simp add: extends_refl)
  next
    case False
    have "extends (own x) w w1" using c by (rule monitor_source_own)
    then show ?thesis
    proof (rule extends_mono)
      fix e assume "own x e"
      then show "about e \<noteq> Some s" using False by (auto simp: own_def)
    qed
  qed
  show ?case
  proof (cases r1)
    case (Inl e)
    then show ?thesis using Cons.prems c e1 by simp
  next
    case (Inr u)
    then have "monitor_loop E xs w1 = (r, w')" using Cons.prems c by simp
    then have "extends (\<lambda>e. about e \<noteq> Some s) w1 w'" by (rule Cons.IH)
    then show ?thesis using e1 extends_trans by blast
  qed
qed

lemma get_registered_sources_quiet:
  "get_registered_sources E w = (r, w') \<Longrightarrow> extends quiet w w'"
  unfolding get_registered_sources_def sources_body_def
  by (auto split: if_splits sum.splits prod.splits dest!: http_quiet)

lemma sweep_body_other:
  assumes "\<not> eligible s" "sweep_body E w = (r, w')"
  shows "extends (\<lambda>e. about e \<noteq> Some s) w w'"
proof -
  let ?P = "\<lambda>e. about e \<noteq> Some s"
  obtain r0 w0 where g: "get_registered_sources E w = (r0, w0)"
    by (cases "get_registered_sources E w")
  have "extends quiet w w0" using g by (rule get_registered_sources_quiet)
  then have e0: "extends ?P w w0" by (rule extends_mono) (simp add: quiet_def)
  have "extends ?P w0 w'"
    using assms(2) g
    by (auto simp: sweep_body_def sleep_def split: if_splits sum.splits prod.splits
        dest!: monitor_loop_other [OF assms(1)]
        intro: extends_refl extends_snoc extends_trans [OF _ extends_snoc])
  then show ?thesis using e0 extends_trans by blast
qed

text \<open>
  C8. A source is eligible when its \<open>status\<close> is \<open>'active'\<close> and its \<open>isActive\<close> is true. For
  every source that is not eligible, so for every source with \<open>isActive = false\<close> or with a
  status other than \<open>'active'\<close>, the round of the loop for this source leaves the history as
  it was: no call, no request, no clock reading (the line it prints is not part of the
  history). And in a whole sweep, whatever the registry returns, no event is issued for that
  source: \<open>process_source\<close>, the fetch strategies and \<open>send_data_to_backend\<close> are never
  called with it.
\<close>

theorem inactive_source_untouched:
  assumes "\<not> eligible s"
  shows "snd (monitor_source E s w) = w \<and>
         (\<exists>evs. sweep E w = w @ evs \<and> (\<forall>e \<in> set evs. about e \<noteq> Some s))"
proof -
  obtain r w1 where b: "sweep_body E w = (r, w1)" by (cases "sweep_body E w")
  have e: "extends (\<lambda>e. about e \<noteq> Some s) w w1" using assms b by (rule sweep_body_other)
  have "extends (\<lambda>e. about e \<noteq> Some s) w1 (sweep E w)"
    using b by (cases r) (auto simp: sweep_def sleep_def intro: extends_refl extends_snoc)
  then have "extends (\<lambda>e. about e \<noteq> Some s) w (sweep E w)" using e extends_trans by blast
  then show ?thesis
    using monitor_source_ineligible [OF assms] by (auto simp: extends_def list_all_iff)
qed



section \<open>Scheduler and strategies at work\<close>

text \<open>
  C8, at a source whose status is \<open>paused\<close> and at a source whose \<open>isActive\<close> is false: a sweep
  over a registry that holds just these two is the request to the registry and the sleep of
  60 seconds.
\<close>

theorem inactive_source_untouched_witness:
  "snd (monitor_source quiet_env paused_source []) = [] \<and>
   snd (monitor_source quiet_env inactive_source []) = [] \<and>
   sweep (registry_env [paused_source, inactive_source]) [] =
     [Http (registry_request quiet_env), Sleep 60]"
proof -
  have p: "\<not> eligible paused_source" by (simp add: eligible_def paused_source_def)
  have i: "\<not> eligible inactive_source" by (simp add: eligible_def inactive_source_def)
  have s: "sweep (registry_env [paused_source, inactive_source]) [] =
     [Http (registry_request quiet_env), Sleep 60]"
    by code_simp
  show ?thesis
    using inactive_source_untouched [OF p, of quiet_env "[]"]
      inactive_source_untouched [OF i, of quiet_env "[]"] s
    by simp
qed


text \<open>
  C10. For a source whose \<open>config\<close> holds an empty \<open>cities\<close> list, \<open>fetch_weather_data\<close> returns
  the empty list and makes no request and no draw; \<open>process_source\<close> on such a weather source
  then returns after the fetch, with no delivery. So the weather strategy is sure to return
  items only when \<open>cities\<close> is absent or not empty.
\<close>

theorem empty_cities_no_delivery:
  assumes "py_get sc ''config'' (JObj []) = Inr cfg"
    and "py_get cfg ''cities'' (JList [JStr ''New York'']) = Inr (JList [])"
  shows "fetch_weather_data E sc w = (Inr [], w @ [FetchWeather sc]) \<and>
     ((\<exists>sid name. py_getitem sc ''sourceId'' = Inr sid \<and>
         py_getitem sc ''sourceType'' = Inr (JStr ''weather'') \<and>
         py_getitem sc ''sourceName'' = Inr name) \<longrightarrow>
      process_source E sc w = (Inr (), w @ [ProcessSource sc, FetchWeather sc]))"
proof -
  obtain kvs where c: "cfg = JObj kvs" using assms(2) by (cases cfg) simp_all
  have k: "\<exists>k. py_get cfg ''apiKey'' JNull = Inr k" by (simp add: c)
  have f: "fetch_weather_data E sc w = (Inr [], w @ [FetchWeather sc])" for w
    using assms k by (auto simp: fetch_weather_data_def fetch_weather_body_def and_then_def)
  show ?thesis
    using f by (auto simp: process_source_def process_try_def and_then_def Let_def)
qed

text \<open>
  C10, at a weather source with \<open>cities = []\<close>.
\<close>

theorem empty_cities_no_delivery_witness:
  "fetch_weather_data quiet_env calm_source [] = (Inr [], [FetchWeather calm_source]) \<and>
   process_source quiet_env calm_source [] =
     (Inr (), [ProcessSource calm_source, FetchWeather calm_source])"
proof -
  have 1: "py_get calm_source ''config'' (JObj []) = Inr (JObj [(''cities'', JList [])])"
    by (simp add: calm_source_def)
  have 2: "py_get (JObj [(''cities'', JList [])]) ''cities'' (JList [JStr ''New York'']) =
      Inr (JList [])"
    by simp
  have 3: "\<exists>sid name. py_getitem calm_source ''sourceId'' = Inr sid \<and>
         py_getitem calm_source ''sourceType'' = Inr (JStr ''weather'') \<and>
         py_getitem calm_source ''sourceName'' = Inr name"
    by (simp add: calm_source_def)
  show ?thesis using empty_cities_no_delivery [OF 1 2, of quiet_env "[]"] 3 by simp
qed

text \<open>
  C3 fails as stated: \<open>fetch_rss_data\<close> starts with \<open>if not feed_url: return []\<close>, so an RSS
  source whose \<open>sourceUrl\<close> is empty (or missing) gets the empty list, not two synthetic
  articles, whatever the network does.
\<close>

theorem rss_without_address_empty:
  "fetch_rss_data quiet_env urlless_source [] = (Inr [], [FetchRss urlless_source])"
  by (simp add: fetch_rss_data_def fetch_rss_body_def urlless_source_def)

text \<open>
  The two synthetic articles, for a source configuration that has the three keys.
\<close>

lemma mock_article_ok:
  assumes "py_getitem sc ''sourceId'' = Inr sid" "py_getitem sc ''sourceName'' = Inr name"
    "py_getitem sc ''sourceUrl'' = Inr url"
  shows "\<exists>a w1. mock_article E sc h d sfx w = (Inr a, w1) \<and>
           field a ''title'' = Some (JStr (h @ py_str E name)) \<and>
           field a ''description'' = Some (JStr d) \<and>
           field a ''link'' = Some (JStr (py_str E url @ sfx))"
proof -
  obtain kvs where s: "sc = JObj kvs" using assms(1) by (cases sc) simp_all
  have g: "py_get sc ''sourceUrl'' (JStr []) = Inr url"
    using assms(3) by (auto simp: s split: option.splits)
  show ?thesis
    using assms g
    by (simp add: mock_article_def and_then_def now_isoformat_def field_def)
qed

lemma generate_mock_rss_ok:
  assumes "py_getitem sc ''sourceId'' = Inr sid" "py_getitem sc ''sourceName'' = Inr name"
    "py_getitem sc ''sourceUrl'' = Inr url"
  shows "\<exists>items w'. generate_mock_rss_data E sc w = (Inr items, w') \<and> is_fallback E name url items"
proof -
  obtain a1 w1 where a1: "mock_article E sc ''Breaking: Latest updates from ''
      ''Important news and updates from our RSS feed source.'' ''/article-1'' w = (Inr a1, w1)"
    "field a1 ''title'' = Some (JStr (''Breaking: Latest updates from '' @ py_str E name))"
    "field a1 ''description'' = Some (JStr ''Important news and updates from our RSS feed source.'')"
    "field a1 ''link'' = Some (JStr (py_str E url @ ''/article-1''))"
    using mock_article_ok [OF assms] by blast
  obtain a2 w2 where a2: "mock_article E sc ''Technology Update from ''
      ''Latest technology trends and innovations in the industry.'' ''/article-2'' w1 = (Inr a2, w2)"
    "field a2 ''title'' = Some (JStr (''Technology Update from '' @ py_str E name))"
    "field a2 ''description'' =
       Some (JStr ''Latest technology trends and innovations in the industry.'')"
    "field a2 ''link'' = Some (JStr (py_str E url @ ''/article-2''))"
    using mock_article_ok [OF assms] by blast
  have "generate_mock_rss_data E sc w = (Inr [a1, a2], w2)"
    using a1(1) a2(1) by (simp add: generate_mock_rss_data_def)
  then show ?thesis using a1 a2 by (simp add: is_fallback_def)
qed

lemma parse_rss_content_returns:
  "\<exists>items w'. parse_rss_content E content sc w = (Inr items, w')"
  by (cases "xml_fromstring E content") (auto simp: parse_rss_content_def split: prod.splits)

text \<open>
  What \<open>fetch_rss_data\<close> returns for a source that has the three keys, by the truth value of
  its address.
\<close>

lemma fetch_rss_outcome:
  assumes "py_getitem sc ''sourceId'' = Inr sid" "py_getitem sc ''sourceName'' = Inr name"
    "py_get sc ''sourceUrl'' JNull = Inr url"
  shows "(\<not> truthy url \<longrightarrow> fetch_rss_data E sc w = (Inr [], w @ [FetchRss sc])) \<and>
     (truthy url \<longrightarrow>
        (\<exists>items w'. fetch_rss_data E sc w = (Inr items, w') \<and> items \<noteq> [] \<and>
           (rss_failed E sc url w \<longrightarrow> is_fallback E name url items)))"
proof (cases "truthy url")
  case False
  then show ?thesis using assms(3) by (simp add: fetch_rss_data_def fetch_rss_body_def)
next
  case True
  obtain kvs where s: "sc = JObj kvs" using assms(1) by (cases sc) simp_all
  have u: "py_getitem sc ''sourceUrl'' = Inr url"
    using assms(3) True by (auto simp: s split: option.splits)
  note mock = generate_mock_rss_ok [OF assms(1,2) u]
  let ?w0 = "w @ [FetchRss sc]"
  let ?w1 = "w @ [FetchRss sc, Http (rss_request url)]"
  have fb: "is_fallback E name url items \<Longrightarrow> items \<noteq> []" for items
    by (auto simp: is_fallback_def)
  have len: "length ?w0 = Suc (length w)" by simp
  show ?thesis
  proof (cases "net E (Suc (length w)) (rss_request url)")
    case (Inl e)
    obtain items w' where m: "generate_mock_rss_data E sc ?w1 = (Inr items, w')"
      "is_fallback E name url items"
      using mock by blast
    have "fetch_rss_data E sc w = (Inr items, w')"
      using True assms(3) Inl m(1)
      by (simp add: fetch_rss_data_def fetch_rss_body_def http_def rss_request_def)
    then show ?thesis using True m(2) fb by auto
  next
    case (Inr resp)
    show ?thesis
    proof (cases "status resp = 200")
      case False
      obtain items w' where m: "generate_mock_rss_data E sc ?w1 = (Inr items, w')"
        "is_fallback E name url items"
        using mock by blast
      have "fetch_rss_data E sc w = (Inr items, w')"
        using True assms(3) Inr False m(1)
        by (simp add: fetch_rss_data_def fetch_rss_body_def http_def rss_request_def)
      then show ?thesis using True m(2) fb by auto
    next
      case ok: True
      show ?thesis
      proof (cases "text_body resp")
        case (Inl e)
        obtain items w' where m: "generate_mock_rss_data E sc ?w1 = (Inr items, w')"
          "is_fallback E name url items"
          using mock by blast
        have "fetch_rss_data E sc w = (Inr items, w')"
          using True assms(3) Inr ok Inl m(1)
          by (simp add: fetch_rss_data_def fetch_rss_body_def http_def rss_request_def)
        then show ?thesis using True m(2) fb by auto
      next
        case body: (Inr content)
        obtain parsed w2 where p: "parse_rss_content E content sc ?w1 = (Inr parsed, w2)"
          using parse_rss_content_returns by blast
        show ?thesis
        proof (cases "parsed = []")
          case True
          obtain items w' where m: "generate_mock_rss_data E sc w2 = (Inr items, w')"
            "is_fallback E name url items"
            using mock by blast
          have "fetch_rss_data E sc w = (Inr items, w')"
            using \<open>truthy url\<close> assms(3) Inr ok body p True m(1)
            by (simp add: fetch_rss_data_def fetch_rss_body_def http_def rss_request_def)
          then show ?thesis using \<open>truthy url\<close> m(2) fb by auto
        next
          case False
          have "fetch_rss_data E sc w = (Inr parsed, w2)"
            using \<open>truthy url\<close> assms(3) Inr ok body p False
            by (simp add: fetch_rss_data_def fetch_rss_body_def http_def rss_request_def)
          moreover have "\<not> rss_failed E sc url w"
            using Inr ok body p False by (simp add: rss_failed_def)
          ultimately show ?thesis using \<open>truthy url\<close> False by auto
        qed
      qed
    qed
  qed
qed

text \<open>
  Every delivery starts with its own event and returns, so \<open>process_source\<close> on a feed
  delivers each item the strategy returned, and nothing when the strategy returned nothing.
\<close>

lemma send_data_first:
  "\<exists>r evs. send_data_to_backend E d sc w = (Inr r, w @ SendData d sc # evs)"
proof -
  obtain r w' where b: "send_body E d sc (w @ [SendData d sc]) = (r, w')"
    by (cases "send_body E d sc (w @ [SendData d sc])")
  then obtain evs where "w' = (w @ [SendData d sc]) @ evs"
    using send_body_quiet [OF b] by (auto simp: extends_def)
  then show ?thesis using b by (cases r) (auto simp: send_data_to_backend_def)
qed

lemma send_all_delivers:
  "\<exists>n' evs. send_all E sc items n w = (Inr n', w @ evs) \<and>
     (\<forall>d \<in> set items. SendData d sc \<in> set evs)"
proof (induction items arbitrary: n w)
  case Nil
  show ?case by simp
next
  case (Cons d items)
  obtain ok msg evs where s: "send_data_to_backend E d sc w = (Inr (ok, msg), w @ SendData d sc # evs)"
    using send_data_first [of E d sc w] by auto
  obtain n' evs' where r:
    "send_all E sc items (if ok then n + 1 else n) (w @ SendData d sc # evs) =
       (Inr n', (w @ SendData d sc # evs) @ evs')"
    "\<forall>d \<in> set items. SendData d sc \<in> set evs'"
    using Cons.IH by blast
  have "send_all E sc (d # items) n w = (Inr n', w @ (SendData d sc # evs @ evs'))"
    using s r(1) by simp
  then show ?case using r(2) by (intro exI [of _ n'] exI [of _ "SendData d sc # evs @ evs'"]) auto
qed

lemma process_source_feed:
  assumes "py_getitem sc ''sourceId'' = Inr sid" "py_getitem sc ''sourceName'' = Inr name"
    "feed_type sc" "fetch_rss_data E sc (w @ [ProcessSource sc]) = (Inr items, w')"
  shows "(items = [] \<longrightarrow> process_source E sc w = (Inr (), w')) \<and>
         (\<exists>evs. snd (process_source E sc w) = w' @ evs \<and>
            (\<forall>d \<in> set items. SendData d sc \<in> set evs))"
proof -
  obtain ty where ty: "py_getitem sc ''sourceType'' = Inr ty" "ty = JStr ''rss'' \<or> ty = JStr ''news''"
    using assms(3) by (auto simp: feed_type_def)
  have t: "process_try E sc ty (w @ [ProcessSource sc]) =
      (if items = [] then (Inr (), w')
       else (case send_all E sc items 0 w' of
               (Inl e, w2) \<Rightarrow> (Inl e, w2) | (Inr n, w2) \<Rightarrow> (Inr (), w2)))"
    using ty(2) assms(4) by (auto simp: process_try_def)
  have p: "process_source E sc w =
      (case process_try E sc ty (w @ [ProcessSource sc]) of
         (Inl e, w1) \<Rightarrow> (Inr (), w1) | (Inr u, w1) \<Rightarrow> (Inr (), w1))"
    using assms(1,2) ty(1) by (simp add: process_source_def and_then_def Let_def)
  show ?thesis
  proof (cases "items = []")
    case True
    then show ?thesis using t p by simp
  next
    case False
    obtain n' evs where s: "send_all E sc items 0 w' = (Inr n', w' @ evs)"
      "\<forall>d \<in> set items. SendData d sc \<in> set evs"
      using send_all_delivers by blast
    have "process_source E sc w = (Inr (), w' @ evs)" using False t p s(1) by simp
    then show ?thesis using False s(2) by auto
  qed
qed

text \<open>
  C3, amended. For every RSS or news source that has a \<open>sourceId\<close> and a \<open>sourceName\<close>: when
  its \<open>sourceUrl\<close> is absent or empty, \<open>fetch_rss_data\<close> returns the empty list and makes no
  request, and \<open>process_source\<close> ends after the fetch without any delivery; otherwise the
  strategy returns a list that is not empty, and when the request raises or times out, the
  answer is not 200, its text cannot be read or the parser yields no article, the list is
  exactly the two synthetic articles: their titles end in the configured name, their
  descriptions are the two fixed sentences, their links are the configured URL followed by
  \<open>/article-1\<close> and \<open>/article-2\<close>; \<open>process_source\<close> then hands every item of the list to
  \<open>send_data_to_backend\<close>.
\<close>

theorem rss_fallback:
  assumes "py_getitem sc ''sourceId'' = Inr sid" "py_getitem sc ''sourceName'' = Inr name"
    "py_get sc ''sourceUrl'' JNull = Inr url"
  shows "(\<not> truthy url \<longrightarrow>
        fetch_rss_data E sc w = (Inr [], w @ [FetchRss sc]) \<and>
        (feed_type sc \<longrightarrow>
           process_source E sc w = (Inr (), w @ [ProcessSource sc, FetchRss sc]))) \<and>
     (truthy url \<longrightarrow>
        (\<exists>items w'. fetch_rss_data E sc w = (Inr items, w') \<and> items \<noteq> [] \<and>
           (rss_failed E sc url w \<longrightarrow> is_fallback E name url items)) \<and>
        (feed_type sc \<longrightarrow>
           (\<exists>items w' evs.
              fetch_rss_data E sc (w @ [ProcessSource sc]) = (Inr items, w') \<and> items \<noteq> [] \<and>
              snd (process_source E sc w) = w' @ evs \<and>
              (\<forall>d \<in> set items. SendData d sc \<in> set evs))))"
proof -
  have A: "\<not> truthy url \<Longrightarrow> fetch_rss_data E sc w = (Inr [], w @ [FetchRss sc])" for w
    using assms(3) by (simp add: fetch_rss_data_def fetch_rss_body_def)
  have B: "\<exists>items w'. fetch_rss_data E sc w = (Inr items, w') \<and> items \<noteq> [] \<and>
           (rss_failed E sc url w \<longrightarrow> is_fallback E name url items)"
    if "truthy url" for w
    using fetch_rss_outcome [OF assms, of E w] that by blast
  have 1: "process_source E sc w = (Inr (), w @ [ProcessSource sc, FetchRss sc])"
    if "\<not> truthy url" "feed_type sc"
    using process_source_feed [OF assms(1,2) that(2) A [OF that(1)]] by simp
  have 2: "\<exists>items w' evs.
              fetch_rss_data E sc (w @ [ProcessSource sc]) = (Inr items, w') \<and> items \<noteq> [] \<and>
              snd (process_source E sc w) = w' @ evs \<and>
              (\<forall>d \<in> set items. SendData d sc \<in> set evs)"
    if tu: "truthy url" and ft: "feed_type sc"
  proof -
    obtain items w' where f: "fetch_rss_data E sc (w @ [ProcessSource sc]) = (Inr items, w')"
      "items \<noteq> []"
      using B [OF tu] by blast
    show ?thesis using process_source_feed [OF assms(1,2) ft f(1)] f by blast
  qed
  show ?thesis using A B 1 2 by blast
qed

text \<open>
  C3, amended, at a feed that cannot be reached and at a source with an empty address: the
  first gets the two synthetic articles and both are handed to the delivery, the second gets
  nothing and no delivery is made.
\<close>

theorem rss_fallback_witness:
  "(\<exists>items w'. fetch_rss_data quiet_env feed_source [] = (Inr items, w') \<and>
      map (\<lambda>a. field a ''title'') items =
        [Some (JStr ''Breaking: Latest updates from Daily Feed''),
         Some (JStr ''Technology Update from Daily Feed'')] \<and>
      map (\<lambda>a. field a ''link'') items =
        [Some (JStr ''http://feed.example/rss/article-1''),
         Some (JStr ''http://feed.example/rss/article-2'')]) \<and>
   (\<exists>d. SendData d feed_source \<in> set (snd (process_source quiet_env feed_source []))) \<and>
   fetch_rss_data quiet_env urlless_source [] = (Inr [], [FetchRss urlless_source]) \<and>
   process_source quiet_env urlless_source [] =
     (Inr (), [ProcessSource urlless_source, FetchRss urlless_source])"
proof -
  have k: "py_getitem feed_source ''sourceId'' = Inr (JStr ''feed-1'')"
    "py_getitem feed_source ''sourceName'' = Inr (JStr ''Daily Feed'')"
    "py_get feed_source ''sourceUrl'' JNull = Inr (JStr ''http://feed.example/rss'')"
    by (simp_all add: feed_source_def)
  have t: "truthy (JStr ''http://feed.example/rss'')" by simp
  have f: "rss_failed quiet_env feed_source (JStr ''http://feed.example/rss'') []"
    by (simp add: rss_failed_def quiet_env_def)
  have ft: "feed_type feed_source" by (simp add: feed_type_def feed_source_def)
  note r = rss_fallback [OF k, of quiet_env "[]"]
  obtain items w' where i: "fetch_rss_data quiet_env feed_source [] = (Inr items, w')"
    "is_fallback quiet_env (JStr ''Daily Feed'') (JStr ''http://feed.example/rss'') items"
    using r t f by blast
  have a: "\<exists>items w'. fetch_rss_data quiet_env feed_source [] = (Inr items, w') \<and>
      map (\<lambda>a. field a ''title'') items =
        [Some (JStr ''Breaking: Latest updates from Daily Feed''),
         Some (JStr ''Technology Update from Daily Feed'')] \<and>
      map (\<lambda>a. field a ''link'') items =
        [Some (JStr ''http://feed.example/rss/article-1''),
         Some (JStr ''http://feed.example/rss/article-2'')]"
    using i by (auto simp: is_fallback_def py_str_def)
  obtain sent w2 evs where s: "sent \<noteq> []"
    "snd (process_source quiet_env feed_source []) = w2 @ evs"
    "\<forall>d \<in> set sent. SendData d feed_source \<in> set evs"
    using r t ft by blast
  obtain d where "d \<in> set sent" using s(1) by (cases sent) auto
  then have c: "\<exists>d. SendData d feed_source \<in> set (snd (process_source quiet_env feed_source []))"
    using s(2,3) by auto
  have u: "py_getitem urlless_source ''sourceId'' = Inr (JStr ''feed-5'')"
    "py_getitem urlless_source ''sourceName'' = Inr (JStr ''Feed Without Address'')"
    "py_get urlless_source ''sourceUrl'' JNull = Inr (JStr [])"
    by (simp_all add: urlless_source_def)
  have ut: "feed_type urlless_source" by (simp add: feed_type_def urlless_source_def)
  have b: "fetch_rss_data quiet_env urlless_source [] = (Inr [], [FetchRss urlless_source]) \<and>
      process_source quiet_env urlless_source [] =
        (Inr (), [ProcessSource urlless_source, FetchRss urlless_source])"
    using rss_fallback [OF u, of quiet_env "[]"] ut by simp
  show ?thesis using a b c by blast
qed

section \<open>Weather strategy: fallback and errors\<close>

text \<open>
  C2 fails as stated: the handler of the outer \<open>try\<close> of \<open>fetch_weather_data\<close> is
  \<open>return []\<close>. Here the configuration holds \<open>cities: null\<close>; iterating over it raises a
  \<open>TypeError\<close> and the strategy returns the empty list, not synthetic items.
\<close>

theorem weather_error_empty:
  "fetch_weather_body quiet_env null_cities_source [FetchWeather null_cities_source] =
     (Inl (Exn TypeError (quote ''NoneType'' @ '' object is not iterable'')),
      [FetchWeather null_cities_source]) \<and>
   fetch_weather_data quiet_env null_cities_source [] =
     (Inr [], [FetchWeather null_cities_source])"
  by (simp add: fetch_weather_data_def fetch_weather_body_def and_then_def null_cities_source_def)

text \<open>
  With a \<open>sourceId\<close> in the configuration, a city that can be a dictionary key always gets an
  item: the one of the provider, or the synthetic one.
\<close>

lemma table_get_hashable: "hashable city \<Longrightarrow> \<exists>v. table_get tb city d = Inr v"
  by (cases city) (simp_all add: table_get_def split: option.split)

lemma mock_ok:
  assumes "hashable city"
  shows "\<exists>item w1. generate_mock_weather_data E city sid w = (Inr item, w1) \<and>
           field item ''city'' = Some city"
proof -
  obtain b where b: "table_get base_temps city 15 = Inr b"
    using table_get_hashable [OF assms, of base_temps 15] by blast
  obtain c where c: "get_coordinates city = Inr c"
    using table_get_hashable [OF assms, of coords "latlon (JInt 0) (JInt 0)"]
    by (auto simp: get_coordinates_def)
  show ?thesis
    by (simp add: generate_mock_weather_data_def b c field_def split: prod.splits)
qed

lemma mock_for_city_ok:
  assumes "py_getitem sc ''sourceId'' = Inr sid" "hashable city"
  shows "\<exists>item w1. mock_for_city E sc city w = (Inr item, w1) \<and>
           synthetic E sid city item \<and> field item ''city'' = Some city"
proof -
  obtain item w1 where m: "generate_mock_weather_data E city sid w = (Inr item, w1)"
    "field item ''city'' = Some city"
    using mock_ok [OF assms(2)] by blast
  then show ?thesis using assms(1) by (auto simp: mock_for_city_def synthetic_def)
qed

lemma weather_city_ok:
  assumes "py_getitem sc ''sourceId'' = Inr sid" "hashable city"
  shows "\<exists>item w1. weather_city E sc k city w = (Inr item, w1) \<and>
           (synthetic E sid city item \<or> (\<not> mock_mode k \<and> live E sc item)) \<and>
           (mock_mode k \<longrightarrow> synthetic E sid city item \<and> field item ''city'' = Some city)"
proof (cases "mock_mode k")
  case True
  obtain item w1 where m: "mock_for_city E sc city w = (Inr item, w1)"
    "synthetic E sid city item" "field item ''city'' = Some city"
    using mock_for_city_ok [OF assms] by blast
  have "weather_city E sc k city w = (Inr item, w1)"
    using True m(1) by (auto simp: weather_city_def weather_attempt_def mock_mode_def)
  then show ?thesis using m by simp
next
  case False
  obtain r w1 where a: "weather_attempt E sc k city w = (r, w1)"
    by (cases "weather_attempt E sc k city w")
  show ?thesis
  proof (cases r)
    case (Inl e)
    obtain item w2 where m: "mock_for_city E sc city w1 = (Inr item, w2)"
      "synthetic E sid city item"
      using mock_for_city_ok [OF assms] by blast
    have "weather_city E sc k city w = (Inr item, w2)"
      using a Inl m(1) by (simp add: weather_city_def)
    then show ?thesis using m(2) False by simp
  next
    case (Inr item)
    have c: "weather_city E sc k city w = (Inr item, w1)"
      using a Inr by (simp add: weather_city_def)
    have "synthetic E sid city item \<or> live E sc item"
      using a Inr False assms(1)
      by (auto simp: weather_attempt_def mock_mode_def mock_for_city_def synthetic_def live_def
          split: if_splits sum.splits prod.splits)
    then show ?thesis using c False by auto
  qed
qed

lemma weather_loop_ok:
  assumes "py_getitem sc ''sourceId'' = Inr sid" "list_all hashable cs"
  shows "\<exists>items w'. weather_loop E sc k cs acc w = (Inr (acc @ items), w') \<and>
           list_all2 (\<lambda>city item. synthetic E sid city item \<or> (\<not> mock_mode k \<and> live E sc item))
             cs items \<and>
           (mock_mode k \<longrightarrow>
              list_all2 (synthetic E sid) cs items \<and>
              map (\<lambda>i. field i ''city'') items = map Some cs)"
  using assms(2)
proof (induction cs arbitrary: acc w)
  case Nil
  show ?case by simp
next
  case (Cons c cs)
  have h: "hashable c" and hs: "list_all hashable cs" using Cons.prems by simp_all
  obtain item w1 where i: "weather_city E sc k c w = (Inr item, w1)"
    "synthetic E sid c item \<or> (\<not> mock_mode k \<and> live E sc item)"
    "mock_mode k \<longrightarrow> synthetic E sid c item \<and> field item ''city'' = Some c"
    using weather_city_ok [OF assms(1) h] by blast
  obtain items w' where r: "weather_loop E sc k cs (acc @ [item]) w1 = (Inr ((acc @ [item]) @ items), w')"
    "list_all2 (\<lambda>city item. synthetic E sid city item \<or> (\<not> mock_mode k \<and> live E sc item)) cs items"
    "mock_mode k \<longrightarrow>
       list_all2 (synthetic E sid) cs items \<and> map (\<lambda>i. field i ''city'') items = map Some cs"
    using Cons.IH [OF hs] by blast
  have "weather_loop E sc k (c # cs) acc w = (Inr (acc @ item # items), w')"
    using i(1) r(1) by simp
  then show ?case using i(2,3) r(2,3)
    by (intro exI [of _ "item # items"] exI [of _ w']) auto
qed

text \<open>
  With a key to use, each round gives the provider's item when the provider gives one and the
  synthetic item of the city otherwise.
\<close>

lemma weather_city_round:
  assumes "py_getitem sc ''sourceId'' = Inr sid" "hashable city" "\<not> mock_mode k"
  shows "\<exists>item w1. weather_city E sc k city w = (Inr item, w1) \<and>
           round_item E sc sid k (city, w) item"
proof -
  let ?rq = "weather_request city k"
  let ?w1 = "w @ [Http ?rq]"
  have key: "truthy k \<and> k \<noteq> JStr ''demo-key''" using assms(3) by (simp add: mock_mode_def)
  have fallback: "\<exists>item w2. mock_for_city E sc city w' = (Inr item, w2) \<and>
      synthetic E sid city item \<and> field item ''city'' = Some city" for w'
    using mock_for_city_ok [OF assms(1,2)] by blast
  have mock: "weather_attempt E sc k city w = (Inl e, w') \<Longrightarrow> live_item_at E sc k city w = None
      \<Longrightarrow> ?thesis" for e w'
  proof -
    assume a: "weather_attempt E sc k city w = (Inl e, w')"
      and n: "live_item_at E sc k city w = None"
    obtain item w2 where m: "mock_for_city E sc city w' = (Inr item, w2)"
      "synthetic E sid city item" "field item ''city'' = Some city"
      using fallback by blast
    have "weather_city E sc k city w = (Inr item, w2)" using a m(1) by (simp add: weather_city_def)
    then show ?thesis using m(2,3) n by (simp add: round_item_def)
  qed
  have mock2: "weather_attempt E sc k city w = mock_for_city E sc city w' \<Longrightarrow>
      live_item_at E sc k city w = None \<Longrightarrow> ?thesis" for w'
  proof -
    assume a: "weather_attempt E sc k city w = mock_for_city E sc city w'"
      and n: "live_item_at E sc k city w = None"
    obtain item w2 where m: "mock_for_city E sc city w' = (Inr item, w2)"
      "synthetic E sid city item" "field item ''city'' = Some city"
      using fallback by blast
    have "weather_city E sc k city w = (Inr item, w2)" using a m(1) by (simp add: weather_city_def)
    then show ?thesis using m(2,3) n by (simp add: round_item_def)
  qed
  show ?thesis
  proof (cases "net E (length w) ?rq")
    case (Inl e)
    have "weather_attempt E sc k city w = (Inl e, ?w1)"
      using Inl key by (simp add: weather_attempt_def http_def)
    moreover have "live_item_at E sc k city w = None" using Inl by (simp add: live_item_at_def)
    ultimately show ?thesis by (rule mock)
  next
    case (Inr resp)
    show ?thesis
    proof (cases "status resp = 200")
      case False
      have "weather_attempt E sc k city w = mock_for_city E sc city ?w1"
        using Inr False key by (simp add: weather_attempt_def http_def)
      moreover have "live_item_at E sc k city w = None"
        using Inr False by (simp add: live_item_at_def)
      ultimately show ?thesis by (rule mock2)
    next
      case True
      show ?thesis
      proof (cases "json_body resp")
        case (Inl e)
        have "weather_attempt E sc k city w = (Inl e, ?w1)"
          using Inr True Inl key by (simp add: weather_attempt_def http_def)
        moreover have "live_item_at E sc k city w = None"
          using Inr True Inl by (simp add: live_item_at_def)
        ultimately show ?thesis by (rule mock)
      next
        case data: (Inr data)
        obtain r w2 where l: "live_weather_item E data sc ?w1 = (r, w2)"
          by (cases "live_weather_item E data sc ?w1")
        have a: "weather_attempt E sc k city w = (r, w2)"
          using Inr True data key l by (simp add: weather_attempt_def http_def)
        show ?thesis
        proof (cases r)
          case (Inl e)
          have "live_item_at E sc k city w = None"
            using Inr True data l Inl by (simp add: live_item_at_def)
          then show ?thesis using a Inl mock by blast
        next
          case item: (Inr item)
          have "live_item_at E sc k city w = Some item"
            using Inr True data l item by (simp add: live_item_at_def)
          moreover have "weather_city E sc k city w = (Inr item, w2)"
            using a item by (simp add: weather_city_def)
          ultimately show ?thesis by (simp add: round_item_def)
        qed
      qed
    qed
  qed
qed

lemma weather_loop_rounds:
  assumes "py_getitem sc ''sourceId'' = Inr sid" "list_all hashable cs" "\<not> mock_mode k"
  shows "\<exists>items w'. weather_loop E sc k cs acc w = (Inr (acc @ items), w') \<and>
           list_all2 (round_item E sc sid k) (zip cs (round_starts E sc k cs w)) items"
  using assms(2)
proof (induction cs arbitrary: acc w)
  case Nil
  show ?case by simp
next
  case (Cons c cs)
  have h: "hashable c" and hs: "list_all hashable cs" using Cons.prems by simp_all
  obtain item w1 where i: "weather_city E sc k c w = (Inr item, w1)"
    "round_item E sc sid k (c, w) item"
    using weather_city_round [OF assms(1) h assms(3)] by blast
  obtain items w' where r:
    "weather_loop E sc k cs (acc @ [item]) w1 = (Inr ((acc @ [item]) @ items), w')"
    "list_all2 (round_item E sc sid k) (zip cs (round_starts E sc k cs w1)) items"
    using Cons.IH [OF hs] by blast
  have "weather_loop E sc k (c # cs) acc w = (Inr (acc @ item # items), w')"
    using i(1) r(1) by simp
  then show ?case using i r(2)
    by (intro exI [of _ "item # items"] exI [of _ w']) simp
qed

lemma fetch_weather_returns: "\<exists>items w'. fetch_weather_data E sc w = (Inr items, w')"
  by (cases "fetch_weather_body E sc (w @ [FetchWeather sc])")
     (auto simp: fetch_weather_data_def split: sum.splits)

text \<open>
  C2, amended. \<open>fetch_weather_data\<close> never raises. An error outside the handling of a single
  city (the configuration is not a dictionary, \<open>cities\<close> cannot be iterated, or the synthetic
  item of a city cannot be built because \<open>sourceId\<close> is missing or the city is a list or a
  dictionary) gives the empty list. For a configuration with a \<open>sourceId\<close> whose cities are a
  list of strings or other values that can be dictionary keys, the default \<open>['New York']\<close>
  when the key is absent, the result has one item for each city, in order. When the key is
  absent, empty or \<open>demo-key\<close>, every item is the synthetic one and its city is the
  requested city, so the result is not empty when the list of cities is not. With any other
  key, the item of a city is the item built from the provider's answer when the request is
  answered with status 200 and a body that decodes and holds every key the item needs; when
  the request raises or times out, the status is not 200, the body does not decode or a key
  is missing from it, the item is the synthetic item of that city and its city is the
  requested city.
\<close>

theorem weather_fetch_outcome:
  "(\<exists>items w'. fetch_weather_data E sc w = (Inr items, w')) \<and>
   ((\<exists>e. fst (fetch_weather_body E sc (w @ [FetchWeather sc])) = Inl e) \<longrightarrow>
      fst (fetch_weather_data E sc w) = Inr []) \<and>
   (py_getitem sc ''sourceId'' = Inr sid \<and> requested_cities sc = Inr (JList cs) \<and>
    list_all hashable cs \<and> configured_key sc = Inr k \<longrightarrow>
      (\<exists>items w'. fetch_weather_data E sc w = (Inr items, w') \<and>
         length items = length cs \<and>
         (mock_mode k \<longrightarrow>
            list_all2 (synthetic E sid) cs items \<and>
            map (\<lambda>i. field i ''city'') items = map Some cs \<and>
            (cs \<noteq> [] \<longrightarrow> items \<noteq> [])) \<and>
         (\<not> mock_mode k \<longrightarrow>
            list_all2 (round_item E sc sid k)
              (zip cs (round_starts E sc k cs (w @ [FetchWeather sc]))) items)))"
proof -
  have 1: "\<exists>items w'. fetch_weather_data E sc w = (Inr items, w')"
    by (rule fetch_weather_returns)
  have 2: "(\<exists>e. fst (fetch_weather_body E sc (w @ [FetchWeather sc])) = Inl e) \<longrightarrow>
      fst (fetch_weather_data E sc w) = Inr []"
    by (cases "fetch_weather_body E sc (w @ [FetchWeather sc])")
       (auto simp: fetch_weather_data_def)
  have 3: "\<exists>items w'. fetch_weather_data E sc w = (Inr items, w') \<and>
         length items = length cs \<and>
         (mock_mode k \<longrightarrow>
            list_all2 (synthetic E sid) cs items \<and>
            map (\<lambda>i. field i ''city'') items = map Some cs \<and>
            (cs \<noteq> [] \<longrightarrow> items \<noteq> [])) \<and>
         (\<not> mock_mode k \<longrightarrow>
            list_all2 (round_item E sc sid k)
              (zip cs (round_starts E sc k cs (w @ [FetchWeather sc]))) items)"
    if h: "py_getitem sc ''sourceId'' = Inr sid" "requested_cities sc = Inr (JList cs)"
      "list_all hashable cs" "configured_key sc = Inr k"
  proof -
    let ?w0 = "w @ [FetchWeather sc]"
    have body: "fetch_weather_body E sc ?w0 = weather_loop E sc k cs [] ?w0"
      using h(2,4)
      by (simp add: fetch_weather_body_def requested_cities_def configured_key_def)
    obtain items w' where l: "weather_loop E sc k cs [] ?w0 = (Inr ([] @ items), w')"
      "list_all2 (\<lambda>city item. synthetic E sid city item \<or> (\<not> mock_mode k \<and> live E sc item))
         cs items"
      "mock_mode k \<longrightarrow>
         list_all2 (synthetic E sid) cs items \<and> map (\<lambda>i. field i ''city'') items = map Some cs"
      using weather_loop_ok [OF h(1) h(3)] by blast
    have f: "fetch_weather_data E sc w = (Inr items, w')"
      using body l(1) by (simp add: fetch_weather_data_def)
    have len: "length items = length cs" using l(2) by (auto dest: list_all2_lengthD)
    have r: "list_all2 (round_item E sc sid k) (zip cs (round_starts E sc k cs ?w0)) items"
      if nm: "\<not> mock_mode k"
    proof -
      obtain items2 w2 where l2: "weather_loop E sc k cs [] ?w0 = (Inr ([] @ items2), w2)"
        "list_all2 (round_item E sc sid k) (zip cs (round_starts E sc k cs ?w0)) items2"
        using weather_loop_rounds [OF h(1) h(3) nm] by blast
      then show ?thesis using l(1) by simp
    qed
    have "cs \<noteq> [] \<longrightarrow> items \<noteq> []" using len by auto
    then show ?thesis using f len l(3) r by blast
  qed
  show ?thesis using 1 2 3 by blast
qed

text \<open>
  C2, amended: with the placeholder key and two cities, with no \<open>config\<close> at all, with a real
  key and a provider that is unreachable, that answers 500, that answers 200 with an
  incomplete report and that answers 200 with a complete report, and with \<open>cities: null\<close>.
\<close>

theorem weather_fetch_outcome_witness:
  "(\<exists>items w'. fetch_weather_data quiet_env demo_source [] = (Inr items, w') \<and>
      map (\<lambda>i. field i ''city'') items = [Some (JStr ''London''), Some (JStr ''Tokyo'')]) \<and>
   (\<exists>items w'. fetch_weather_data quiet_env default_source [] = (Inr items, w') \<and>
      map (\<lambda>i. field i ''city'') items = [Some (JStr ''New York'')]) \<and>
   (\<exists>items w'. fetch_weather_data quiet_env keyed_source [] = (Inr items, w') \<and>
      map (\<lambda>i. field i ''city'') items = [Some (JStr ''London''), Some (JStr ''Tokyo'')]) \<and>
   (\<exists>items w'. fetch_weather_data refusing_env keyed_source [] = (Inr items, w') \<and>
      map (\<lambda>i. field i ''city'') items = [Some (JStr ''London''), Some (JStr ''Tokyo'')]) \<and>
   (\<exists>items w'. fetch_weather_data truncated_env keyed_source [] = (Inr items, w') \<and>
      map (\<lambda>i. field i ''city'') items = [Some (JStr ''London''), Some (JStr ''Tokyo'')]) \<and>
   (\<exists>items w'. fetch_weather_data provider_env keyed_source [] = (Inr items, w') \<and>
      map (\<lambda>i. field i ''city'') items =
        [Some (JStr ''Greater London''), Some (JStr ''Greater London'')] \<and>
      map (\<lambda>i. field i ''source'') items =
        [Some (JStr ''openweathermap-api-weather-4''),
         Some (JStr ''openweathermap-api-weather-4'')]) \<and>
   fst (fetch_weather_data quiet_env null_cities_source []) = Inr []"
proof -
  have d: "py_getitem demo_source ''sourceId'' = Inr (JStr ''weather-3'') \<and>
      requested_cities demo_source = Inr (JList [JStr ''London'', JStr ''Tokyo'']) \<and>
      list_all hashable [JStr ''London'', JStr ''Tokyo''] \<and>
      configured_key demo_source = Inr (JStr ''demo-key'')"
    by (simp add: demo_source_def requested_cities_def configured_key_def and_then_def)
  have dm: "mock_mode (JStr ''demo-key'')" by (simp add: mock_mode_def)
  have a: "\<exists>items w'. fetch_weather_data quiet_env demo_source [] = (Inr items, w') \<and>
      map (\<lambda>i. field i ''city'') items = [Some (JStr ''London''), Some (JStr ''Tokyo'')]"
    using weather_fetch_outcome [of quiet_env demo_source "[]" "JStr ''weather-3''"
        "[JStr ''London'', JStr ''Tokyo'']" "JStr ''demo-key''"] d dm
    by auto
  have e: "py_getitem default_source ''sourceId'' = Inr (JStr ''weather-5'') \<and>
      requested_cities default_source = Inr (JList [JStr ''New York'']) \<and>
      list_all hashable [JStr ''New York''] \<and>
      configured_key default_source = Inr JNull"
    by (simp add: default_source_def requested_cities_def configured_key_def and_then_def)
  have em: "mock_mode JNull" by (simp add: mock_mode_def)
  have b: "\<exists>items w'. fetch_weather_data quiet_env default_source [] = (Inr items, w') \<and>
      map (\<lambda>i. field i ''city'') items = [Some (JStr ''New York'')]"
    using weather_fetch_outcome [of quiet_env default_source "[]" "JStr ''weather-5''"
        "[JStr ''New York'']" JNull] e em
    by auto
  let ?k = "JStr ''0123456789abcdef''"
  have k: "py_getitem keyed_source ''sourceId'' = Inr (JStr ''weather-4'') \<and>
      requested_cities keyed_source = Inr (JList [JStr ''London'', JStr ''Tokyo'']) \<and>
      list_all hashable [JStr ''London'', JStr ''Tokyo''] \<and>
      configured_key keyed_source = Inr ?k"
    by (simp add: keyed_source_def requested_cities_def configured_key_def and_then_def)
  have km: "\<not> mock_mode ?k" by (simp add: mock_mode_def)
  have q: "live_item_at quiet_env keyed_source ?k c w = None" for c w
    by (simp add: live_item_at_def quiet_env_def)
  have r: "live_item_at refusing_env keyed_source ?k c w = None" for c w
    by (simp add: live_item_at_def refusing_env_def quiet_env_def)
  have t: "live_item_at truncated_env keyed_source ?k c w = None" for c w
    by (simp add: live_item_at_def truncated_env_def quiet_env_def live_weather_item_def
        and_then_def)
  have p: "\<exists>item. live_item_at provider_env keyed_source ?k c w = Some item \<and>
      field item ''city'' = Some (JStr ''Greater London'') \<and>
      field item ''source'' = Some (JStr ''openweathermap-api-weather-4'')" for c w
    by (simp add: live_item_at_def provider_env_def quiet_env_def live_weather_item_def
        and_then_def now_isoformat_def keyed_source_def field_def py_str_def)
  have synth: "\<exists>items w'. fetch_weather_data E keyed_source [] = (Inr items, w') \<and>
      map (\<lambda>i. field i ''city'') items = [Some (JStr ''London''), Some (JStr ''Tokyo'')]"
    if n: "\<And>c w. live_item_at E keyed_source ?k c w = None" for E
    using weather_fetch_outcome [of E keyed_source "[]" "JStr ''weather-4''"
        "[JStr ''London'', JStr ''Tokyo'']" ?k] k km
    by (auto simp: round_item_def n list_all2_Cons1)
  have c1: "\<exists>items w'. fetch_weather_data quiet_env keyed_source [] = (Inr items, w') \<and>
      map (\<lambda>i. field i ''city'') items = [Some (JStr ''London''), Some (JStr ''Tokyo'')]"
    using q by (rule synth)
  have c2: "\<exists>items w'. fetch_weather_data refusing_env keyed_source [] = (Inr items, w') \<and>
      map (\<lambda>i. field i ''city'') items = [Some (JStr ''London''), Some (JStr ''Tokyo'')]"
    using r by (rule synth)
  have c3: "\<exists>items w'. fetch_weather_data truncated_env keyed_source [] = (Inr items, w') \<and>
      map (\<lambda>i. field i ''city'') items = [Some (JStr ''London''), Some (JStr ''Tokyo'')]"
    using t by (rule synth)
  have c4: "\<exists>items w'. fetch_weather_data provider_env keyed_source [] = (Inr items, w') \<and>
      map (\<lambda>i. field i ''city'') items =
        [Some (JStr ''Greater London''), Some (JStr ''Greater London'')] \<and>
      map (\<lambda>i. field i ''source'') items =
        [Some (JStr ''openweathermap-api-weather-4''),
         Some (JStr ''openweathermap-api-weather-4'')]"
  proof -
    obtain items w' where f: "fetch_weather_data provider_env keyed_source [] = (Inr items, w')"
      "list_all2 (round_item provider_env keyed_source (JStr ''weather-4'') ?k)
         (zip [JStr ''London'', JStr ''Tokyo'']
            (round_starts provider_env keyed_source ?k [JStr ''London'', JStr ''Tokyo'']
               ([] @ [FetchWeather keyed_source]))) items"
      using weather_fetch_outcome [of provider_env keyed_source "[]" "JStr ''weather-4''"
          "[JStr ''London'', JStr ''Tokyo'']" ?k] k km
      by blast
    have ri: "round_item provider_env keyed_source (JStr ''weather-4'') ?k cw item \<Longrightarrow>
        field item ''city'' = Some (JStr ''Greater London'') \<and>
        field item ''source'' = Some (JStr ''openweathermap-api-weather-4'')" for cw item
      using p [of "fst cw" "snd cw"] by (auto simp: round_item_def)
    show ?thesis using f by (auto simp: list_all2_Cons1 dest!: ri)
  qed
  have n: "\<exists>e. fst (fetch_weather_body quiet_env null_cities_source
      ([] @ [FetchWeather null_cities_source])) = Inl e"
    by (simp add: fetch_weather_body_def and_then_def null_cities_source_def)
  have z: "fst (fetch_weather_data quiet_env null_cities_source []) = Inr []"
    using weather_fetch_outcome [of quiet_env null_cities_source "[]"] n by blast
  show ?thesis using a b c1 c2 c3 c4 z by blast
qed

end
